theory Spec2Isabelle
  imports Main
begin

section \<open>Exceptions\<close>

text \<open>
  The Python exceptions that the service distinguishes in its \<^verbatim>\<open>except\<close> clauses. Every
  constructor carries the text that \<^verbatim>\<open>str(e)\<close> yields; \<open>HTTPStatusError\<close> also carries
  \<^verbatim>\<open>e.response.status_code\<close>. \<open>OtherException\<close> stands for every other subclass of
  \<^verbatim>\<open>Exception\<close>.
\<close>

datatype exn =
    NoTranscriptFound string
  | TranscriptsDisabled string
  | ValueError string
  | HTTPStatusError nat string
  | OtherException string

fun str_exn :: "exn \<Rightarrow> string" where
  "str_exn (NoTranscriptFound m) = m"
| "str_exn (TranscriptsDisabled m) = m"
| "str_exn (ValueError m) = m"
| "str_exn (HTTPStatusError c m) = m"
| "str_exn (OtherException m) = m"

section \<open>Video identifier parsing\<close>

text \<open>
  \<^verbatim>\<open>extract_video_id\<close> runs \<^verbatim>\<open>re.search\<close> with two patterns in turn. A string is a list of
  characters; the character class \<^verbatim>\<open>[a-zA-Z0-9_-]\<close> is decided on the character code.
\<close>

definition is_id_char :: "char \<Rightarrow> bool" where
  "is_id_char c =
     (let n = (of_char c :: nat) in
        (97 \<le> n \<and> n \<le> 122) \<or> (65 \<le> n \<and> n \<le> 90) \<or> (48 \<le> n \<and> n \<le> 57)
        \<or> c = CHR ''_'' \<or> c = CHR ''-'')"

text \<open>The group \<^verbatim>\<open>([a-zA-Z0-9_-]{11})\<close> matched at the start of a string.\<close>

definition match_id11 :: "string \<Rightarrow> string option" where
  "match_id11 s =
     (if 11 \<le> length s \<and> list_all is_id_char (take 11 s) then Some (take 11 s) else None)"

definition starts_with :: "string \<Rightarrow> string \<Rightarrow> bool" where
  "starts_with m s = (take (length m) s = m)"

text \<open>The alternatives of \<^verbatim>\<open>(?:v=|\/v\/|youtu\.be\/|\/embed\/)\<close>, in the order written.\<close>

definition markers :: "string list" where
  "markers = [''v='', ''/v/'', ''youtu.be/'', ''/embed/'']"

text \<open>
  One match attempt of the first pattern at the start of \<open>s\<close>: the alternatives are tried
  in order, and an alternative whose continuation fails gives way to the next one.
\<close>

fun match_alts :: "string list \<Rightarrow> string \<Rightarrow> string option" where
  "match_alts [] s = None"
| "match_alts (m # ms) s =
     (if starts_with m s then
        (case match_id11 (drop (length m) s) of
           Some v \<Rightarrow> Some v
         | None \<Rightarrow> match_alts ms s)
      else match_alts ms s)"

text \<open>\<^verbatim>\<open>re.search\<close>: the attempt is made at position 0, then 1, and so on; the leftmost wins.\<close>

fun search_marker :: "string \<Rightarrow> string option" where
  "search_marker [] = match_alts markers []"
| "search_marker (c # cs) =
     (case match_alts markers (c # cs) of
        Some v \<Rightarrow> Some v
      | None \<Rightarrow> search_marker cs)"

text \<open>
  The second pattern \<^verbatim>\<open>^([a-zA-Z0-9_-]{11})$\<close>. Without \<^verbatim>\<open>re.MULTILINE\<close>, \<^verbatim>\<open>^\<close> matches
  at position 0 only and \<^verbatim>\<open>$\<close> matches at the end of the string and just before a newline
  that ends the string.
\<close>

definition search_bare :: "string \<Rightarrow> string option" where
  "search_bare s =
     (case match_id11 s of
        None \<Rightarrow> None
      | Some v \<Rightarrow> (if drop 11 s = [] \<or> drop 11 s = [CHR 0x0A] then Some v else None))"

definition extract_video_id :: "string \<Rightarrow> exn + string" where
  "extract_video_id u =
     (case search_marker u of
        Some v \<Rightarrow> Inr v
      | None \<Rightarrow>
          (case search_bare u of
             Some v \<Rightarrow> Inr v
           | None \<Rightarrow> Inl (ValueError (''Could not extract video ID from: '' @ u))))"

section \<open>Transcript resolution\<close>

text \<open>
  The transcript provider is an external library. Its objects are taken as they are used:
  a transcript has a language code and a \<^verbatim>\<open>fetch()\<close> that returns the cue entries or
  raises; a transcript list answers \<^verbatim>\<open>find_transcript\<close> and
  \<^verbatim>\<open>find_generated_transcript\<close> (each returns a transcript or raises) and iterates over
  its transcripts in the provider's order. Of a cue entry only \<^verbatim>\<open>entry["text"]\<close> is read.
\<close>

record cue =
  cue_text :: string

record Transcript =
  language_code :: string
  is_generated :: bool
  fetch :: "exn + cue list"

record TranscriptList =
  find_transcript :: "string list \<Rightarrow> exn + Transcript"
  find_generated_transcript :: "string list \<Rightarrow> exn + Transcript"
  iter :: "Transcript list"

record TranscriptRequest =
  tq_url :: string
  tq_languages :: "string list"

record TranscriptResponse =
  video_id :: string
  tr_title :: "string option"
  transcript :: string
  language :: string
  tr_success :: bool
  tr_error :: "string option"

text \<open>\<^verbatim>\<open>sep.join(xs)\<close>\<close>

fun str_join :: "string \<Rightarrow> string list \<Rightarrow> string" where
  "str_join sep [] = []"
| "str_join sep [x] = x"
| "str_join sep (x # y # ys) = x @ sep @ str_join sep (y # ys)"

text \<open>
  The loop over \<^verbatim>\<open>request.languages\<close>: \<^verbatim>\<open>NoTranscriptFound\<close> continues with the next
  language, a transcript ends the loop, any other exception leaves the loop and the
  function body. The result is the pair \<^verbatim>\<open>(transcript, language_used)\<close> after the loop.
\<close>

fun search_preferred :: "TranscriptList \<Rightarrow> string list \<Rightarrow> exn + (Transcript option \<times> string)" where
  "search_preferred tlist [] = Inr (None, [])"
| "search_preferred tlist (lang # rest) =
     (case find_transcript tlist [lang] of
        Inr t \<Rightarrow> Inr (Some t, lang)
      | Inl (NoTranscriptFound m) \<Rightarrow> search_preferred tlist rest
      | Inl e \<Rightarrow> Inl e)"

text \<open>The block under \<^verbatim>\<open>if not transcript:\<close>.\<close>

definition search_fallback :: "TranscriptList \<Rightarrow> string list \<Rightarrow> exn + (Transcript option \<times> string)" where
  "search_fallback tlist langs =
     (case find_generated_transcript tlist langs of
        Inr t \<Rightarrow> Inr (Some t, ''auto'')
      | Inl (NoTranscriptFound m) \<Rightarrow>
          (case iter tlist of
             [] \<Rightarrow> Inr (None, [])
           | t # ts \<Rightarrow> Inr (Some t, language_code t))
      | Inl e \<Rightarrow> Inl e)"

text \<open>
  The body of the \<^verbatim>\<open>try\<close> block of \<^verbatim>\<open>get_youtube_transcript\<close>: \<open>Inl\<close> is an exception
  that reaches the \<^verbatim>\<open>except\<close> clauses, \<open>Inr\<close> a returned response.
  \<open>list_transcripts\<close> is \<^verbatim>\<open>YouTubeTranscriptApi.list_transcripts\<close>.
\<close>

definition get_youtube_transcript_try ::
  "(string \<Rightarrow> exn + TranscriptList) \<Rightarrow> TranscriptRequest \<Rightarrow> exn + TranscriptResponse" where
  "get_youtube_transcript_try list_transcripts request =
     (case extract_video_id (tq_url request) of
        Inl e \<Rightarrow> Inl e
      | Inr vid \<Rightarrow>
     (case list_transcripts vid of
        Inl e \<Rightarrow> Inl e
      | Inr transcript_list \<Rightarrow>
     (case search_preferred transcript_list (tq_languages request) of
        Inl e \<Rightarrow> Inl e
      | Inr (found, lang) \<Rightarrow>
     (case (case found of
              None \<Rightarrow> search_fallback transcript_list (tq_languages request)
            | Some t \<Rightarrow> Inr (Some t, lang)) of
        Inl e \<Rightarrow> Inl e
      | Inr (None, language_used) \<Rightarrow>
          Inr \<lparr>video_id = vid, tr_title = None, transcript = [], language = [],
               tr_success = False, tr_error = Some ''No transcript available''\<rparr>
      | Inr (Some t, language_used) \<Rightarrow>
          (case fetch t of
             Inl e \<Rightarrow> Inl e
           | Inr transcript_data \<Rightarrow>
               Inr \<lparr>video_id = vid, tr_title = None,
                    transcript = str_join '' '' (map cue_text transcript_data),
                    language = language_used, tr_success = True, tr_error = None\<rparr>)))))"

text \<open>The three \<^verbatim>\<open>except\<close> clauses, in the order written.\<close>

definition transcript_failure :: "string \<Rightarrow> string \<Rightarrow> TranscriptResponse" where
  "transcript_failure u msg =
     \<lparr>video_id = u, tr_title = None, transcript = [], language = [],
      tr_success = False, tr_error = Some msg\<rparr>"

fun transcript_except :: "TranscriptRequest \<Rightarrow> exn \<Rightarrow> TranscriptResponse" where
  "transcript_except request (TranscriptsDisabled m) =
     transcript_failure (tq_url request) ''Transcripts are disabled for this video''"
| "transcript_except request (ValueError m) =
     transcript_failure (tq_url request) (str_exn (ValueError m))"
| "transcript_except request e =
     transcript_failure (tq_url request) (str_exn e)"

definition get_youtube_transcript ::
  "(string \<Rightarrow> exn + TranscriptList) \<Rightarrow> TranscriptRequest \<Rightarrow> TranscriptResponse" where
  "get_youtube_transcript list_transcripts request =
     (case get_youtube_transcript_try list_transcripts request of
        Inr response \<Rightarrow> response
      | Inl e \<Rightarrow> transcript_except request e)"

section \<open>Batch\<close>

record BatchTranscriptRequest =
  urls :: "string list"
  bq_languages :: "string list"

record BatchResponse =
  results :: "TranscriptResponse list"
  total :: nat

text \<open>The \<^verbatim>\<open>for url in request.urls\<close> loop, with \<^verbatim>\<open>results\<close> as its accumulator.\<close>

fun batch_loop ::
  "(string \<Rightarrow> exn + TranscriptList) \<Rightarrow> string list \<Rightarrow> string list \<Rightarrow> TranscriptResponse list
     \<Rightarrow> TranscriptResponse list" where
  "batch_loop list_transcripts langs [] acc = acc"
| "batch_loop list_transcripts langs (u # us) acc =
     batch_loop list_transcripts langs us
       (acc @ [get_youtube_transcript list_transcripts \<lparr>tq_url = u, tq_languages = langs\<rparr>])"

definition get_youtube_transcripts_batch ::
  "(string \<Rightarrow> exn + TranscriptList) \<Rightarrow> BatchTranscriptRequest \<Rightarrow> BatchResponse" where
  "get_youtube_transcripts_batch list_transcripts request =
     (let rs = batch_loop list_transcripts (bq_languages request) (urls request) []
      in \<lparr>results = rs, total = length rs\<rparr>)"

section \<open>Content extraction\<close>

subsection \<open>Parsed markup\<close>

text \<open>
  The parsed document is a forest of text nodes and elements (tag name, children), in
  document order. The parser itself is external and is a parameter of the extractor.
\<close>

datatype node = Text string | Element string "node list"

text \<open>
  \<^verbatim>\<open>for script in soup(["script", "style", "nav", "footer", "header"]): script.decompose()\<close>:
  every element with one of the names, at any depth, is removed together with its subtree.
\<close>

definition stripped_tags :: "string list" where
  "stripped_tags = [''script'', ''style'', ''nav'', ''footer'', ''header'']"

fun decompose_all :: "string list \<Rightarrow> node list \<Rightarrow> node list" where
  "decompose_all tags [] = []"
| "decompose_all tags (Text s # ns) = Text s # decompose_all tags ns"
| "decompose_all tags (Element t cs # ns) =
     (if t \<in> set tags then decompose_all tags ns
      else Element t (decompose_all tags cs) # decompose_all tags ns)"

text \<open>\<^verbatim>\<open>soup.find(name)\<close>: the first element with that name in document order.\<close>

fun find_tag :: "string \<Rightarrow> node list \<Rightarrow> node option" where
  "find_tag name [] = None"
| "find_tag name (Text s # ns) = find_tag name ns"
| "find_tag name (Element t cs # ns) =
     (if t = name then Some (Element t cs)
      else (case find_tag name cs of
              Some e \<Rightarrow> Some e
            | None \<Rightarrow> find_tag name ns))"

text \<open>
  \<^verbatim>\<open>tag.string\<close>: the text of a single text child, the \<^verbatim>\<open>.string\<close> of a single element
  child, otherwise \<^verbatim>\<open>None\<close>.
\<close>

fun node_string :: "node \<Rightarrow> string option" where
  "node_string (Text s) = Some s"
| "node_string (Element t []) = None"
| "node_string (Element t [c]) = node_string c"
| "node_string (Element t (c # d # cs)) = None"

text \<open>The text nodes below a forest, in document order.\<close>

fun all_strings :: "node list \<Rightarrow> string list" where
  "all_strings [] = []"
| "all_strings (Text s # ns) = s # all_strings ns"
| "all_strings (Element t cs # ns) = all_strings cs @ all_strings ns"

text \<open>
  \<^verbatim>\<open>str.strip()\<close> removes leading and trailing whitespace; the whitespace characters with a
  code below 256 are listed.
\<close>

definition is_space :: "char \<Rightarrow> bool" where
  "is_space c =
     (let n = (of_char c :: nat) in
        (9 \<le> n \<and> n \<le> 13) \<or> (28 \<le> n \<and> n \<le> 32) \<or> n = 133 \<or> n = 160)"

definition strip :: "string \<Rightarrow> string" where
  "strip s = rev (dropWhile is_space (rev (dropWhile is_space s)))"

text \<open>
  \<^verbatim>\<open>el.get_text(separator, strip)\<close>: the text nodes below the element, each stripped and
  the empty ones dropped when \<^verbatim>\<open>strip\<close> is set, joined by the separator.
\<close>

fun node_strings :: "node \<Rightarrow> string list" where
  "node_strings (Text s) = [s]"
| "node_strings (Element t cs) = all_strings cs"

definition get_text :: "string \<Rightarrow> bool \<Rightarrow> node \<Rightarrow> string" where
  "get_text separator strp el =
     str_join separator
       (if strp then filter (\<lambda>s. s \<noteq> []) (map strip (node_strings el))
        else node_strings el)"

subsection \<open>The endpoint\<close>

record ScrapeRequest =
  sq_url :: string
  selector :: "string option"

record ScrapeResponse =
  sr_url :: string
  sr_title :: "string option"
  content :: string
  sr_success :: bool
  sr_error :: "string option"

text \<open>
  The response of the HTTP client, as it is used: \<^verbatim>\<open>response.text\<close> and the outcome of
  \<^verbatim>\<open>response.raise_for_status()\<close> (\<open>None\<close> when it returns).
\<close>

record Response =
  body_text :: string
  raise_for_status :: "exn option"

text \<open>
  The external collaborators: \<^verbatim>\<open>client.get\<close>, the markup parser
  \<^verbatim>\<open>BeautifulSoup(text, "html.parser")\<close> and the selector engine \<^verbatim>\<open>soup.select\<close>.
\<close>

record ScrapeEnv =
  client_get :: "string \<Rightarrow> exn + Response"
  BeautifulSoup :: "string \<Rightarrow> exn + node list"
  select :: "string \<Rightarrow> node list \<Rightarrow> exn + node list"

text \<open>\<^verbatim>\<open>if request.selector:\<close> holds for a selector that is neither \<^verbatim>\<open>None\<close> nor empty.\<close>

fun truthy :: "string option \<Rightarrow> bool" where
  "truthy None = False"
| "truthy (Some s) = (s \<noteq> [])"

text \<open>\<^verbatim>\<open>soup.find("main") or soup.find("article") or soup.find("body")\<close>\<close>

definition find_main :: "node list \<Rightarrow> node option" where
  "find_main soup =
     (case find_tag ''main'' soup of
        Some m \<Rightarrow> Some m
      | None \<Rightarrow>
          (case find_tag ''article'' soup of
             Some a \<Rightarrow> Some a
           | None \<Rightarrow> find_tag ''body'' soup))"

text \<open>The \<^verbatim>\<open>content\<close> variable, computed from the soup after the removal loop.\<close>

definition get_content :: "ScrapeEnv \<Rightarrow> ScrapeRequest \<Rightarrow> node list \<Rightarrow> exn + string" where
  "get_content env request soup =
     (if truthy (selector request) then
        (case select env (the (selector request)) soup of
           Inl e \<Rightarrow> Inl e
         | Inr elements \<Rightarrow> Inr (str_join [CHR 0x0A] (map (get_text [] True) elements)))
      else
        (case find_main soup of
           Some m \<Rightarrow> Inr (get_text [CHR 0x0A] True m)
         | None \<Rightarrow> Inr []))"

text \<open>\<^verbatim>\<open>soup.title.string if soup.title else None\<close>\<close>

definition get_title :: "node list \<Rightarrow> string option" where
  "get_title soup =
     (case find_tag ''title'' soup of
        Some t \<Rightarrow> node_string t
      | None \<Rightarrow> None)"

text \<open>The body of the \<^verbatim>\<open>try\<close> block of \<^verbatim>\<open>scrape_url\<close>.\<close>

definition scrape_url_try :: "ScrapeEnv \<Rightarrow> ScrapeRequest \<Rightarrow> exn + ScrapeResponse" where
  "scrape_url_try env request =
     (case client_get env (sq_url request) of
        Inl e \<Rightarrow> Inl e
      | Inr response \<Rightarrow>
     (case raise_for_status response of
        Some e \<Rightarrow> Inl e
      | None \<Rightarrow>
     (case BeautifulSoup env (body_text response) of
        Inl e \<Rightarrow> Inl e
      | Inr parsed \<Rightarrow>
     (let soup = decompose_all stripped_tags parsed;
          title = get_title soup
      in (case get_content env request soup of
            Inl e \<Rightarrow> Inl e
          | Inr c \<Rightarrow>
              Inr \<lparr>sr_url = sq_url request, sr_title = title, content = take 50000 c,
                   sr_success = True, sr_error = None\<rparr>)))))"

text \<open>\<^verbatim>\<open>str(n)\<close> for a status code.\<close>

fun str_nat :: "nat \<Rightarrow> string" where
  "str_nat n =
     (if n < 10 then [char_of (48 + n)]
      else str_nat (n div 10) @ [char_of (48 + n mod 10)])"

declare str_nat.simps [simp del]

text \<open>The two \<^verbatim>\<open>except\<close> clauses of \<^verbatim>\<open>scrape_url\<close>.\<close>

definition scrape_failure :: "string \<Rightarrow> string \<Rightarrow> ScrapeResponse" where
  "scrape_failure u msg =
     \<lparr>sr_url = u, sr_title = None, content = [], sr_success = False, sr_error = Some msg\<rparr>"

fun scrape_except :: "ScrapeRequest \<Rightarrow> exn \<Rightarrow> ScrapeResponse" where
  "scrape_except request (HTTPStatusError code m) =
     scrape_failure (sq_url request) (''HTTP error '' @ str_nat code)"
| "scrape_except request e = scrape_failure (sq_url request) (str_exn e)"

definition scrape_url :: "ScrapeEnv \<Rightarrow> ScrapeRequest \<Rightarrow> ScrapeResponse" where
  "scrape_url env request =
     (case scrape_url_try env request of
        Inr response \<Rightarrow> response
      | Inl e \<Rightarrow> scrape_except request e)"

section \<open>Predicates used in the statements\<close>

text \<open>A provider lookup that raised \<^verbatim>\<open>NoTranscriptFound\<close>.\<close>

definition is_not_found :: "exn + 'a \<Rightarrow> bool" where
  "is_not_found r = (case r of Inl (NoTranscriptFound m) \<Rightarrow> True | _ \<Rightarrow> False)"

section \<open>Sample providers and inputs\<close>

text \<open>
  Concrete collaborators for the instances below. A sample transcript list answers its
  lookups from a list of tracks: the first requested code that some track carries wins.
  \<open>track_list\<close> looks a language up among all tracks, \<open>manual_track_list\<close> among the
  manually created ones only; both look for generated transcripts among the generated
  tracks and iterate in list order.
\<close>

fun find_by_codes :: "Transcript list \<Rightarrow> string list \<Rightarrow> exn + Transcript" where
  "find_by_codes ts [] = Inl (NoTranscriptFound ''no transcript found'')"
| "find_by_codes ts (c # cs) =
     (case find (\<lambda>t. language_code t = c) ts of
        Some t \<Rightarrow> Inr t
      | None \<Rightarrow> find_by_codes ts cs)"

definition track_list :: "Transcript list \<Rightarrow> TranscriptList" where
  "track_list ts =
     \<lparr>find_transcript = find_by_codes ts,
      find_generated_transcript = find_by_codes (filter is_generated ts),
      iter = ts\<rparr>"


definition en_manual :: Transcript where
  "en_manual =
     \<lparr>language_code = ''en'', is_generated = False,
      fetch = Inr [\<lparr>cue_text = ''never gonna''\<rparr>, \<lparr>cue_text = ''give you up''\<rparr>]\<rparr>"



definition sample_api :: "Transcript list \<Rightarrow> string \<Rightarrow> exn + TranscriptList" where
  "sample_api ts vid =
     (if vid = ''dQw4w9WgXcQ'' then Inr (track_list ts)
      else Inl (TranscriptsDisabled ''Subtitles are disabled for this video''))"

text \<open>
  The contract of the provider's lookups: a lookup returns one of the transcripts of the
  enumeration or raises \<^verbatim>\<open>NoTranscriptFound\<close>.
\<close>

definition lookups_consistent :: "TranscriptList \<Rightarrow> bool" where
  "lookups_consistent tlist =
     (\<forall>codes.
        (case find_transcript tlist codes of
           Inr t \<Rightarrow> t \<in> set (iter tlist)
         | Inl e \<Rightarrow> (\<exists>m. e = NoTranscriptFound m))
      \<and> (case find_generated_transcript tlist codes of
           Inr t \<Rightarrow> t \<in> set (iter tlist)
         | Inl e \<Rightarrow> (\<exists>m. e = NoTranscriptFound m)))"


definition broken_track :: Transcript where
  "broken_track =
     \<lparr>language_code = ''en'', is_generated = False,
      fetch = Inl (OtherException ''connection reset'')\<rparr>"

text \<open>\<^verbatim>\<open>soup.find_all(name)\<close>: every element with that name, in document order.\<close>

fun find_all :: "string \<Rightarrow> node list \<Rightarrow> node list" where
  "find_all name [] = []"
| "find_all name (Text s # ns) = find_all name ns"
| "find_all name (Element t cs # ns) =
     (if t = name then [Element t cs] else []) @ find_all name cs @ find_all name ns"

definition sample_page :: "node list" where
  "sample_page =
     [Element ''html''
        [Element ''head'' [Element ''title'' [Text ''Demo'']],
         Element ''body''
           [Element ''header'' [Element ''h1'' [Text ''Banner'']],
            Element ''h1'' [Text '' First ''],
            Element ''script'' [Text ''var x = 1;''],
            Element ''h1'' [Text ''Second''],
            Element ''nav'' [Element ''h1'' [Text ''Menu'']],
            Element ''p'' [Text ''Hello '', Element ''b'' [Text ''world'']],
            Element ''h1'' [Text ''Third''],
            Element ''footer'' [Text ''bye'']]]]"

text \<open>
  A sample environment: the client answers every URL with the given outcome, the parser
  knows one document, and the selector engine understands a bare tag name.
\<close>

definition sample_env :: "exn + Response \<Rightarrow> ScrapeEnv" where
  "sample_env outcome =
     \<lparr>client_get = (\<lambda>u. outcome),
      BeautifulSoup = (\<lambda>markup. if markup = ''<demo>'' then Inr sample_page
                                else Inr [Element ''body'' [Text markup]]),
      select = (\<lambda>sel soup. if sel = ''['' then Inl (OtherException ''Malformed attribute selector'')
                             else Inr (find_all sel soup))\<rparr>"

definition demo_response :: Response where
  "demo_response = \<lparr>body_text = ''<demo>'', raise_for_status = None\<rparr>"

definition not_found_response :: Response where
  "not_found_response =
     \<lparr>body_text = ''gone'', raise_for_status = Some (HTTPStatusError 404 ''Client error 404 Not Found'')\<rparr>"

text \<open>A page of 60000 characters.\<close>

definition long_response :: Response where
  "long_response = \<lparr>body_text = replicate 60000 (CHR ''a''), raise_for_status = None\<rparr>"

text \<open>The names of all elements of a forest, at any depth.\<close>

fun tags_of :: "node list \<Rightarrow> string list" where
  "tags_of [] = []"
| "tags_of (Text s # ns) = tags_of ns"
| "tags_of (Element t cs # ns) = t # tags_of cs @ tags_of ns"

text \<open>
  The failure response of \<^verbatim>\<open>scrape_url\<close> for a fault \<open>e\<close>, and the one of
  \<^verbatim>\<open>get_youtube_transcript\<close>.
\<close>

definition scrape_fault :: "ScrapeRequest \<Rightarrow> exn \<Rightarrow> ScrapeResponse \<Rightarrow> bool" where
  "scrape_fault sq e r =
     (\<not> sr_success r \<and> content r = [] \<and> sr_url r = sq_url sq \<and> sr_title r = None
      \<and> sr_error r = Some (case e of
                              HTTPStatusError code m \<Rightarrow> ''HTTP error '' @ str_nat code
                            | _ \<Rightarrow> str_exn e))"

definition transcript_fault :: "TranscriptRequest \<Rightarrow> exn \<Rightarrow> TranscriptResponse \<Rightarrow> bool" where
  "transcript_fault rq e r =
     (\<not> tr_success r \<and> transcript r = [] \<and> language r = [] \<and> video_id r = tq_url rq
      \<and> tr_error r = Some (case e of
                              TranscriptsDisabled m \<Rightarrow> ''Transcripts are disabled for this video''
                            | _ \<Rightarrow> str_exn e))"

text \<open>
  The transcript that the search selects: found for the first language with a hit, else by
  the lookup of a generated transcript, else the first of the enumeration.
\<close>

definition selects :: "TranscriptList \<Rightarrow> string list \<Rightarrow> Transcript \<Rightarrow> bool" where
  "selects tlist langs t =
     ((\<exists>pre l post. langs = pre @ l # post
          \<and> (\<forall>k \<in> set pre. is_not_found (find_transcript tlist [k]))
          \<and> find_transcript tlist [l] = Inr t)
      \<or> ((\<forall>k \<in> set langs. is_not_found (find_transcript tlist [k]))
          \<and> find_generated_transcript tlist langs = Inr t)
      \<or> ((\<forall>k \<in> set langs. is_not_found (find_transcript tlist [k]))
          \<and> is_not_found (find_generated_transcript tlist langs)
          \<and> (\<exists>ts. iter tlist = t # ts)))"

text \<open>A provider whose lookups time out, and an environment whose parser fails.\<close>

definition timeout_api :: "string \<Rightarrow> exn + TranscriptList" where
  "timeout_api vid =
     Inr \<lparr>find_transcript = (\<lambda>codes. Inl (OtherException ''timed out'')),
          find_generated_transcript = (\<lambda>codes. Inl (OtherException ''timed out'')),
          iter = []\<rparr>"

definition broken_parser_env :: ScrapeEnv where
  "broken_parser_env =
     \<lparr>client_get = (\<lambda>u. Inr demo_response),
      BeautifulSoup = (\<lambda>markup. Inl (OtherException ''markup error'')),
      select = (\<lambda>sel soup. Inr [])\<rparr>"

text \<open>
  The identifier pattern in the words of the specification: an identifier is a string of
  11 characters of the alphabet; it is embedded at position \<open>i\<close> when one of the four
  markers starts there and the identifier follows it; the bare form is the identifier
  alone, or with one newline after it.
\<close>

definition id_alphabet :: string where
  "id_alphabet = ''abcdefghijklmnopqrstuvwxyzABCDEFGHIJKLMNOPQRSTUVWXYZ0123456789_-''"

definition is_identifier :: "string \<Rightarrow> bool" where
  "is_identifier v = (length v = 11 \<and> (\<forall>c \<in> set v. c \<in> set id_alphabet))"

definition embedded_at :: "string \<Rightarrow> nat \<Rightarrow> string \<Rightarrow> bool" where
  "embedded_at u i v =
     (is_identifier v
      \<and> (\<exists>m \<in> set [''v='', ''/v/'', ''youtu.be/'', ''/embed/''].
            take (length m + 11) (drop i u) = m @ v))"

definition bare_form :: "string \<Rightarrow> string \<Rightarrow> bool" where
  "bare_form u v = (is_identifier v \<and> (u = v \<or> u = v @ [CHR 0x0A]))"

text \<open>
  The extraction in the words of the specification: the element names that are not
  content; the text strings of a document outside the subtrees with such a name; the
  elements of a document in document order and the first one with a given name; a list
  that keeps the order of another; the stripped, non-empty text strings of an element.
  Then a page with an inline element and an environment that parses to a given page.
\<close>

definition non_content_tags :: "string list" where
  "non_content_tags = [''script'', ''style'', ''nav'', ''footer'', ''header'']"

fun visible_strings :: "string list \<Rightarrow> node list \<Rightarrow> string list" where
  "visible_strings tags [] = []"
| "visible_strings tags (Text s # ns) = s # visible_strings tags ns"
| "visible_strings tags (Element t cs # ns) =
     (if t \<in> set tags then [] else visible_strings tags cs) @ visible_strings tags ns"

fun elements_of :: "node list \<Rightarrow> node list" where
  "elements_of [] = []"
| "elements_of (Text s # ns) = elements_of ns"
| "elements_of (Element t cs # ns) = Element t cs # elements_of cs @ elements_of ns"

fun has_name :: "string \<Rightarrow> node \<Rightarrow> bool" where
  "has_name name (Text s) = False"
| "has_name name (Element t cs) = (t = name)"

definition first_named :: "string \<Rightarrow> node list \<Rightarrow> node option" where
  "first_named name soup =
     (case filter (has_name name) (elements_of soup) of
        [] \<Rightarrow> None
      | e # es \<Rightarrow> Some e)"

fun in_order :: "'a list \<Rightarrow> 'a list \<Rightarrow> bool" where
  "in_order [] ys = True"
| "in_order (x # xs) [] = False"
| "in_order (x # xs) (y # ys) = (if x = y then in_order xs ys else in_order (x # xs) ys)"

definition cleaned_strings :: "node \<Rightarrow> string list" where
  "cleaned_strings e = filter (\<lambda>s. s \<noteq> []) (map strip (node_strings e))"

definition inline_page :: "node list" where
  "inline_page = [Element ''body'' [Element ''p'' [Text ''Hello '', Element ''b'' [Text ''world'']]]]"

definition page_env :: "node list \<Rightarrow> ScrapeEnv" where
  "page_env page =
     \<lparr>client_get = (\<lambda>u. Inr demo_response),
      BeautifulSoup = (\<lambda>markup. Inr page),
      select = (\<lambda>sel soup. Inr (find_all sel soup))\<rparr>"

section \<open>Properties\<close>

subsection \<open>Language preference order\<close>

lemma search_preferred_skip:
  "\<forall>l \<in> set pre. is_not_found (find_transcript tlist [l]) \<Longrightarrow>
   search_preferred tlist (pre @ rest) = search_preferred tlist rest"
  by (induction pre) (auto simp: is_not_found_def split: sum.splits exn.splits)

lemma search_preferred_hit:
  assumes "\<forall>l \<in> set pre. is_not_found (find_transcript tlist [l])"
    and "find_transcript tlist [lang] = Inr t"
  shows "search_preferred tlist (pre @ lang # post) = Inr (Some t, lang)"
  using assms by (simp add: search_preferred_skip)

text \<open>
  C1. The languages are tried in list order: when every language before \<open>lang\<close> in the
  request's list raises \<^verbatim>\<open>NoTranscriptFound\<close> and the lookup of \<open>lang\<close> finds a transcript
  \<open>t\<close>, the loop selects \<open>t\<close> with \<open>lang\<close>, whatever follows in the list, and the
  response of a successful fetch carries \<open>language = lang\<close>.
\<close>

theorem preferred_language_order:
  assumes "extract_video_id (tq_url request) = Inr vid"
    and "list_transcripts vid = Inr tlist"
    and "tq_languages request = pre @ lang # post"
    and "\<forall>l \<in> set pre. is_not_found (find_transcript tlist [l])"
    and "find_transcript tlist [lang] = Inr t"
    and "fetch t = Inr cues"
  shows "search_preferred tlist (tq_languages request) = Inr (Some t, lang)
       \<and> get_youtube_transcript list_transcripts request =
           \<lparr>video_id = vid, tr_title = None,
            transcript = str_join '' '' (map cue_text cues),
            language = lang, tr_success = True, tr_error = None\<rparr>"
proof -
  have sp: "search_preferred tlist (tq_languages request) = Inr (Some t, lang)"
    using assms(3-5) by (simp add: search_preferred_hit)
  show ?thesis
    using sp assms(1,2,6)
    by (simp add: get_youtube_transcript_def get_youtube_transcript_try_def)
qed

text \<open>
  The instance of the specification: languages \<^verbatim>\<open>["es", "en"]\<close> and a single manual
  \<^verbatim>\<open>en\<close> track give \<open>language = ''en''\<close>.
\<close>

lemma rick_id: "extract_video_id ''https://www.youtube.com/watch?v=dQw4w9WgXcQ'' = Inr ''dQw4w9WgXcQ''"
  by code_simp

theorem preferred_language_order_witness:
  "get_youtube_transcript (sample_api [en_manual])
     \<lparr>tq_url = ''https://www.youtube.com/watch?v=dQw4w9WgXcQ'', tq_languages = [''es'', ''en'']\<rparr> =
   \<lparr>video_id = ''dQw4w9WgXcQ'', tr_title = None, transcript = ''never gonna give you up'',
    language = ''en'', tr_success = True, tr_error = None\<rparr>"
proof -
  let ?rq = "\<lparr>tq_url = ''https://www.youtube.com/watch?v=dQw4w9WgXcQ'', tq_languages = [''es'', ''en'']\<rparr>"
  have h1: "extract_video_id (tq_url ?rq) = Inr ''dQw4w9WgXcQ''"
    using rick_id by simp
  have h2: "sample_api [en_manual] ''dQw4w9WgXcQ'' = Inr (track_list [en_manual])"
    by (simp add: sample_api_def)
  have h3: "tq_languages ?rq = [''es''] @ ''en'' # []"
    by simp
  have h4: "\<forall>l \<in> set [''es'']. is_not_found (find_transcript (track_list [en_manual]) [l])"
    by (simp add: is_not_found_def track_list_def en_manual_def)
  have h5: "find_transcript (track_list [en_manual]) [''en''] = Inr en_manual"
    by (simp add: track_list_def en_manual_def)
  have h6: "fetch en_manual = Inr [\<lparr>cue_text = ''never gonna''\<rparr>, \<lparr>cue_text = ''give you up''\<rparr>]"
    by (simp add: en_manual_def)
  show ?thesis
    using preferred_language_order [where list_transcripts = "sample_api [en_manual]" and request = ?rq, OF h1 h2 h3 h4 h5 h6] by simp
qed

subsection \<open>Batch\<close>

lemma batch_loop_map:
  "batch_loop api langs us acc =
     acc @ map (\<lambda>u. get_youtube_transcript api \<lparr>tq_url = u, tq_languages = langs\<rparr>) us"
  by (induction us arbitrary: acc) simp_all

text \<open>
  C9. The batch endpoint returns one response per URL, in input order; response \<open>k\<close> is
  the response of the single-item endpoint for URL \<open>k\<close> with the shared language list, so
  it does not depend on the other URLs; \<open>total\<close> is the number of URLs.
\<close>

theorem batch_results_in_order:
  "(let out = get_youtube_transcripts_batch api request;
        one = (\<lambda>u. get_youtube_transcript api \<lparr>tq_url = u, tq_languages = bq_languages request\<rparr>)
    in results out = map one (urls request)
       \<and> length (results out) = length (urls request)
       \<and> total out = length (urls request)
       \<and> (\<forall>k < length (urls request). results out ! k = one (urls request ! k)))"
  by (simp add: get_youtube_transcripts_batch_def batch_loop_map Let_def)

lemma sample_valid_url:
  "get_youtube_transcript (sample_api [en_manual])
     \<lparr>tq_url = ''https://youtu.be/dQw4w9WgXcQ'', tq_languages = [''en'']\<rparr> =
   \<lparr>video_id = ''dQw4w9WgXcQ'', tr_title = None, transcript = ''never gonna give you up'',
    language = ''en'', tr_success = True, tr_error = None\<rparr>"
  by code_simp

lemma sample_invalid_url:
  "get_youtube_transcript (sample_api [en_manual])
     \<lparr>tq_url = ''not a video'', tq_languages = [''en'']\<rparr> =
   \<lparr>video_id = ''not a video'', tr_title = None, transcript = [], language = [],
    tr_success = False, tr_error = Some ''Could not extract video ID from: not a video''\<rparr>"
  by code_simp

lemma sample_bare_id:
  "get_youtube_transcript (sample_api [en_manual])
     \<lparr>tq_url = ''dQw4w9WgXcQ'', tq_languages = [''en'']\<rparr> =
   \<lparr>video_id = ''dQw4w9WgXcQ'', tr_title = None, transcript = ''never gonna give you up'',
    language = ''en'', tr_success = True, tr_error = None\<rparr>"
  by code_simp

text \<open>Three URLs, the second one invalid: its failure stays in its own slot.\<close>

theorem batch_results_in_order_witness:
  "results (get_youtube_transcripts_batch (sample_api [en_manual])
      \<lparr>urls = [''https://youtu.be/dQw4w9WgXcQ'', ''not a video'', ''dQw4w9WgXcQ''],
       bq_languages = [''en'']\<rparr>) =
     [\<lparr>video_id = ''dQw4w9WgXcQ'', tr_title = None, transcript = ''never gonna give you up'',
       language = ''en'', tr_success = True, tr_error = None\<rparr>,
      \<lparr>video_id = ''not a video'', tr_title = None, transcript = [], language = [],
       tr_success = False, tr_error = Some ''Could not extract video ID from: not a video''\<rparr>,
      \<lparr>video_id = ''dQw4w9WgXcQ'', tr_title = None, transcript = ''never gonna give you up'',
       language = ''en'', tr_success = True, tr_error = None\<rparr>]
   \<and> total (get_youtube_transcripts_batch (sample_api [en_manual])
      \<lparr>urls = [''https://youtu.be/dQw4w9WgXcQ'', ''not a video'', ''dQw4w9WgXcQ''],
       bq_languages = [''en'']\<rparr>) = 3"
  using batch_results_in_order [of "sample_api [en_manual]"
      "\<lparr>urls = [''https://youtu.be/dQw4w9WgXcQ'', ''not a video'', ''dQw4w9WgXcQ''],
        bq_languages = [''en'']\<rparr>"]
  by (simp add: Let_def sample_valid_url sample_invalid_url sample_bare_id)

subsection \<open>Fallback search\<close>

lemma is_not_found_iff: "is_not_found r \<longleftrightarrow> (\<exists>m. r = Inl (NoTranscriptFound m))"
  by (auto simp: is_not_found_def split: sum.splits exn.splits)

lemma search_preferred_none:
  "\<forall>l \<in> set langs. is_not_found (find_transcript tlist [l]) \<Longrightarrow>
   search_preferred tlist langs = Inr (None, [])"
  using search_preferred_skip [of langs tlist "[]"] by simp


text \<open>
  C6. For a URL with a valid identifier whose transcript list enumerates no transcript
  (and whose lookups keep their contract), the response is the failure
  \<open>No transcript available\<close> with an empty transcript.
\<close>

theorem no_tracks_no_transcript:
  assumes "extract_video_id (tq_url request) = Inr vid"
    and "list_transcripts vid = Inr tlist"
    and "iter tlist = []"
    and "lookups_consistent tlist"
  shows "get_youtube_transcript list_transcripts request =
           \<lparr>video_id = vid, tr_title = None, transcript = [], language = [],
            tr_success = False, tr_error = Some ''No transcript available''\<rparr>"
proof -
  have nf: "is_not_found (find_transcript tlist codes)" for codes
  proof -
    have "case find_transcript tlist codes of
            Inr t \<Rightarrow> t \<in> set (iter tlist)
          | Inl e \<Rightarrow> (\<exists>m. e = NoTranscriptFound m)"
      using assms(4) unfolding lookups_consistent_def by blast
    then show ?thesis
      using assms(3) by (cases "find_transcript tlist codes") (auto simp: is_not_found_iff)
  qed
  have ng: "is_not_found (find_generated_transcript tlist codes)" for codes
  proof -
    have "case find_generated_transcript tlist codes of
            Inr t \<Rightarrow> t \<in> set (iter tlist)
          | Inl e \<Rightarrow> (\<exists>m. e = NoTranscriptFound m)"
      using assms(4) unfolding lookups_consistent_def by blast
    then show ?thesis
      using assms(3) by (cases "find_generated_transcript tlist codes") (auto simp: is_not_found_iff)
  qed
  have sp: "search_preferred tlist (tq_languages request) = Inr (None, [])"
    by (rule search_preferred_none) (simp add: nf)
  obtain m where "find_generated_transcript tlist (tq_languages request) = Inl (NoTranscriptFound m)"
    using ng [of "tq_languages request"] unfolding is_not_found_iff by blast
  then show ?thesis
    using sp assms(1-3)
    by (simp add: get_youtube_transcript_def get_youtube_transcript_try_def search_fallback_def)
qed


lemma find_by_codes_empty: "\<exists>m. find_by_codes [] codes = Inl (NoTranscriptFound m)"
  by (induction codes) simp_all

lemma find_by_codes_Inr: "find_by_codes ts codes = Inr t \<Longrightarrow> t \<in> set ts"
proof (induction codes)
  case Nil
  then show ?case by simp
next
  case (Cons c codes)
  show ?case
  proof (cases "find (\<lambda>t. language_code t = c) ts")
    case None
    with Cons show ?thesis by simp
  next
    case (Some u)
    with Cons.prems have "u = t" by simp
    with Some show ?thesis by (auto simp: find_Some_iff)
  qed
qed

lemma find_by_codes_Inl: "find_by_codes ts codes = Inl e \<Longrightarrow> \<exists>m. e = NoTranscriptFound m"
  by (induction codes) (auto split: option.splits)

lemma track_list_consistent: "lookups_consistent (track_list ts)"
  unfolding lookups_consistent_def track_list_def
  by (auto split: sum.splits dest: find_by_codes_Inr find_by_codes_Inl)

theorem no_tracks_no_transcript_witness:
  "get_youtube_transcript (sample_api [])
     \<lparr>tq_url = ''https://www.youtube.com/watch?v=dQw4w9WgXcQ'', tq_languages = [''en'', ''es'', ''ca'']\<rparr> =
   \<lparr>video_id = ''dQw4w9WgXcQ'', tr_title = None, transcript = [], language = [],
    tr_success = False, tr_error = Some ''No transcript available''\<rparr>"
proof -
  let ?rq = "\<lparr>tq_url = ''https://www.youtube.com/watch?v=dQw4w9WgXcQ'', tq_languages = [''en'', ''es'', ''ca'']\<rparr>"
  have h1: "extract_video_id (tq_url ?rq) = Inr ''dQw4w9WgXcQ''"
    using rick_id by simp
  have h2: "sample_api [] ''dQw4w9WgXcQ'' = Inr (track_list [])"
    by (simp add: sample_api_def)
  have h3: "iter (track_list []) = []"
    by (simp add: track_list_def)
  have h4: "lookups_consistent (track_list [])"
    by (rule track_list_consistent)
  show ?thesis
    using no_tracks_no_transcript [where list_transcripts = "sample_api []" and request = ?rq,
        OF h1 h2 h3 h4] by simp
qed


subsection \<open>Failures\<close>

lemma match_id11_valid: "match_id11 s = Some v \<Longrightarrow> length v = 11 \<and> list_all is_id_char v"
  by (auto simp: match_id11_def split: if_splits)

lemma match_alts_valid: "match_alts ms s = Some v \<Longrightarrow> length v = 11 \<and> list_all is_id_char v"
  by (induction ms) (auto split: if_splits option.splits dest: match_id11_valid)

lemma search_marker_valid: "search_marker s = Some v \<Longrightarrow> length v = 11 \<and> list_all is_id_char v"
  by (induction s) (auto split: option.splits dest: match_alts_valid)

lemma search_bare_valid: "search_bare s = Some v \<Longrightarrow> length v = 11 \<and> list_all is_id_char v"
  by (auto simp: search_bare_def split: option.splits if_splits dest: match_id11_valid)

lemma extract_video_id_valid:
  "extract_video_id u = Inr v \<Longrightarrow> length v = 11 \<and> list_all is_id_char v"
  by (auto simp: extract_video_id_def split: option.splits
      dest: search_marker_valid search_bare_valid)

lemma extract_video_id_error:
  "extract_video_id u = Inl e \<Longrightarrow> e = ValueError (''Could not extract video ID from: '' @ u)"
  by (auto simp: extract_video_id_def split: option.splits)

lemma try_returns:
  assumes "get_youtube_transcript_try api rq = Inr r"
  shows "extract_video_id (tq_url rq) = Inr (video_id r)
       \<and> (tr_success r \<or> r = \<lparr>video_id = video_id r, tr_title = None, transcript = [], language = [],
               tr_success = False, tr_error = Some ''No transcript available''\<rparr>)"
  using assms
  by (auto simp: get_youtube_transcript_try_def split: sum.splits option.splits prod.splits)

lemma parse_failure_raises:
  assumes "extract_video_id (tq_url rq) = Inl e"
  shows "get_youtube_transcript_try api rq = Inl e"
  using assms by (simp add: get_youtube_transcript_try_def)

text \<open>
  C5. The failure kinds and their responses: \<^verbatim>\<open>TranscriptsDisabled\<close> gives the fixed
  message \<open>Transcripts are disabled for this video\<close>; a URL that the parser rejects gives the
  parser's message and the raw URL in \<open>video_id\<close>; any other exception gives its string
  form. In each case a response with \<open>tr_success = False\<close> is returned.
\<close>

theorem failure_mapping:
  "(\<forall>m. get_youtube_transcript_try api rq = Inl (TranscriptsDisabled m) \<longrightarrow>
       get_youtube_transcript api rq =
         \<lparr>video_id = tq_url rq, tr_title = None, transcript = [], language = [],
          tr_success = False, tr_error = Some ''Transcripts are disabled for this video''\<rparr>)
   \<and> (\<forall>e. extract_video_id (tq_url rq) = Inl e \<longrightarrow>
       str_exn e = ''Could not extract video ID from: '' @ tq_url rq
       \<and> get_youtube_transcript api rq =
         \<lparr>video_id = tq_url rq, tr_title = None, transcript = [], language = [],
          tr_success = False, tr_error = Some (str_exn e)\<rparr>)
   \<and> (\<forall>e. get_youtube_transcript_try api rq = Inl e \<and> (\<forall>m. e \<noteq> TranscriptsDisabled m) \<longrightarrow>
       get_youtube_transcript api rq =
         \<lparr>video_id = tq_url rq, tr_title = None, transcript = [], language = [],
          tr_success = False, tr_error = Some (str_exn e)\<rparr>)"
proof (intro conjI allI impI)
  fix m
  assume "get_youtube_transcript_try api rq = Inl (TranscriptsDisabled m)"
  then show "get_youtube_transcript api rq =
         \<lparr>video_id = tq_url rq, tr_title = None, transcript = [], language = [],
          tr_success = False, tr_error = Some ''Transcripts are disabled for this video''\<rparr>"
    by (simp add: get_youtube_transcript_def transcript_failure_def)
next
  fix e
  assume a: "extract_video_id (tq_url rq) = Inl e"
  then show "str_exn e = ''Could not extract video ID from: '' @ tq_url rq"
    by (auto dest: extract_video_id_error)
  from a have "e = ValueError (''Could not extract video ID from: '' @ tq_url rq)"
    by (rule extract_video_id_error)
  with a show "get_youtube_transcript api rq =
         \<lparr>video_id = tq_url rq, tr_title = None, transcript = [], language = [],
          tr_success = False, tr_error = Some (str_exn e)\<rparr>"
    by (simp add: get_youtube_transcript_def parse_failure_raises transcript_failure_def)
next
  fix e
  assume "get_youtube_transcript_try api rq = Inl e \<and> (\<forall>m. e \<noteq> TranscriptsDisabled m)"
  then show "get_youtube_transcript api rq =
         \<lparr>video_id = tq_url rq, tr_title = None, transcript = [], language = [],
          tr_success = False, tr_error = Some (str_exn e)\<rparr>"
    by (cases e) (simp_all add: get_youtube_transcript_def transcript_failure_def)
qed

text \<open>
  C10. Whenever the body raises, whatever the exception and also after the identifier was
  parsed, the response carries the raw request URL in \<open>video_id\<close>. Whenever the body
  returns (success, or the failure \<open>No transcript available\<close>), \<open>video_id\<close> is the parsed
  identifier of 11 characters.
\<close>

theorem exception_keeps_raw_url:
  "(\<forall>e. get_youtube_transcript_try api rq = Inl e \<longrightarrow>
       video_id (get_youtube_transcript api rq) = tq_url rq
       \<and> \<not> tr_success (get_youtube_transcript api rq))
   \<and> (\<forall>r. get_youtube_transcript_try api rq = Inr r \<longrightarrow>
       get_youtube_transcript api rq = r
       \<and> extract_video_id (tq_url rq) = Inr (video_id r)
       \<and> length (video_id r) = 11
       \<and> (tr_success r \<or> tr_error r = Some ''No transcript available''))"
proof (intro conjI allI impI)
  fix e
  assume a: "get_youtube_transcript_try api rq = Inl e"
  then show "video_id (get_youtube_transcript api rq) = tq_url rq"
    by (cases e) (simp_all add: get_youtube_transcript_def transcript_failure_def)
  from a show "\<not> tr_success (get_youtube_transcript api rq)"
    by (cases e) (simp_all add: get_youtube_transcript_def transcript_failure_def)
next
  fix r
  assume a: "get_youtube_transcript_try api rq = Inr r"
  then show "get_youtube_transcript api rq = r"
    by (simp add: get_youtube_transcript_def)
  from a show "extract_video_id (tq_url rq) = Inr (video_id r)"
    by (simp add: try_returns)
  then show "length (video_id r) = 11"
    by (simp add: extract_video_id_valid)
  from try_returns [OF a] show "tr_success r \<or> tr_error r = Some ''No transcript available''"
    by (metis TranscriptResponse.select_convs(6))
qed

lemma w_disabled:
  "get_youtube_transcript_try (sample_api [en_manual])
     \<lparr>tq_url = ''https://youtu.be/AAAAAAAAAAA'', tq_languages = [''en'']\<rparr> =
   Inl (TranscriptsDisabled ''Subtitles are disabled for this video'')"
  by code_simp

lemma w_invalid:
  "extract_video_id (tq_url \<lparr>tq_url = ''not a video'', tq_languages = [''en'']\<rparr>) =
   Inl (ValueError ''Could not extract video ID from: not a video'')"
  by code_simp

lemma w_broken:
  "get_youtube_transcript_try (sample_api [broken_track])
     \<lparr>tq_url = ''https://youtu.be/dQw4w9WgXcQ'', tq_languages = [''en'']\<rparr> =
   Inl (OtherException ''connection reset'')"
  by code_simp

lemma w_empty:
  "get_youtube_transcript_try (sample_api [])
     \<lparr>tq_url = ''https://youtu.be/dQw4w9WgXcQ'', tq_languages = [''en'']\<rparr> =
   Inr \<lparr>video_id = ''dQw4w9WgXcQ'', tr_title = None, transcript = [], language = [],
        tr_success = False, tr_error = Some ''No transcript available''\<rparr>"
  by code_simp

theorem failure_mapping_witness:
  "get_youtube_transcript (sample_api [en_manual])
     \<lparr>tq_url = ''https://youtu.be/AAAAAAAAAAA'', tq_languages = [''en'']\<rparr> =
     \<lparr>video_id = ''https://youtu.be/AAAAAAAAAAA'', tr_title = None, transcript = [], language = [],
      tr_success = False, tr_error = Some ''Transcripts are disabled for this video''\<rparr>
   \<and> get_youtube_transcript (sample_api [en_manual])
     \<lparr>tq_url = ''not a video'', tq_languages = [''en'']\<rparr> =
     \<lparr>video_id = ''not a video'', tr_title = None, transcript = [], language = [],
      tr_success = False, tr_error = Some ''Could not extract video ID from: not a video''\<rparr>
   \<and> get_youtube_transcript (sample_api [broken_track])
     \<lparr>tq_url = ''https://youtu.be/dQw4w9WgXcQ'', tq_languages = [''en'']\<rparr> =
     \<lparr>video_id = ''https://youtu.be/dQw4w9WgXcQ'', tr_title = None, transcript = [], language = [],
      tr_success = False, tr_error = Some ''connection reset''\<rparr>"
proof -
  have ne: "\<forall>m. OtherException ''connection reset'' \<noteq> TranscriptsDisabled m"
    by simp
  show ?thesis
    using failure_mapping [of "sample_api [en_manual]"
        "\<lparr>tq_url = ''https://youtu.be/AAAAAAAAAAA'', tq_languages = [''en'']\<rparr>"]
      failure_mapping [of "sample_api [en_manual]"
        "\<lparr>tq_url = ''not a video'', tq_languages = [''en'']\<rparr>"]
      failure_mapping [of "sample_api [broken_track]"
        "\<lparr>tq_url = ''https://youtu.be/dQw4w9WgXcQ'', tq_languages = [''en'']\<rparr>"]
      w_disabled w_invalid w_broken ne
    by simp
qed

theorem exception_keeps_raw_url_witness:
  "extract_video_id ''https://youtu.be/AAAAAAAAAAA'' = Inr ''AAAAAAAAAAA''
   \<and> video_id (get_youtube_transcript (sample_api [en_manual])
       \<lparr>tq_url = ''https://youtu.be/AAAAAAAAAAA'', tq_languages = [''en'']\<rparr>) =
     ''https://youtu.be/AAAAAAAAAAA''
   \<and> video_id (get_youtube_transcript (sample_api [])
       \<lparr>tq_url = ''https://youtu.be/dQw4w9WgXcQ'', tq_languages = [''en'']\<rparr>) = ''dQw4w9WgXcQ''"
proof -
  have p: "extract_video_id ''https://youtu.be/AAAAAAAAAAA'' = Inr ''AAAAAAAAAAA''"
    by code_simp
  show ?thesis
    using exception_keeps_raw_url [of "sample_api [en_manual]"
        "\<lparr>tq_url = ''https://youtu.be/AAAAAAAAAAA'', tq_languages = [''en'']\<rparr>"]
      exception_keeps_raw_url [of "sample_api []"
        "\<lparr>tq_url = ''https://youtu.be/dQw4w9WgXcQ'', tq_languages = [''en'']\<rparr>"]
      w_disabled w_empty p
    by simp
qed

lemma w_status:
  "scrape_url_try (sample_env (Inr not_found_response)) \<lparr>sq_url = ''https://example.org/x'', selector = None\<rparr> =
   Inl (HTTPStatusError 404 ''Client error 404 Not Found'')"
  by (simp add: scrape_url_try_def sample_env_def not_found_response_def)

lemma w_selector:
  "scrape_url_try (sample_env (Inr demo_response)) \<lparr>sq_url = ''https://example.org/x'', selector = Some ''[''\<rparr> =
   Inl (OtherException ''Malformed attribute selector'')"
  by (simp add: scrape_url_try_def sample_env_def demo_response_def get_content_def Let_def)

lemma str_nat_404: "str_nat 404 = ''404''"
  by code_simp

subsection \<open>Video identifiers\<close>

lemma marker_has_delimiter: "m \<in> set markers \<Longrightarrow> \<exists>c \<in> set m. \<not> is_id_char c"
  by (auto simp: markers_def is_id_char_def)

lemma starts_with_subset: "starts_with m s \<Longrightarrow> set m \<subseteq> set s"
  unfolding starts_with_def by (metis set_take_subset)

lemma match_alts_no_delimiter:
  "set ms \<subseteq> set markers \<Longrightarrow> list_all is_id_char s \<Longrightarrow> match_alts ms s = None"
proof (induction ms)
  case Nil
  then show ?case by simp
next
  case (Cons m ms)
  have "\<not> starts_with m s"
  proof
    assume "starts_with m s"
    then have "set m \<subseteq> set s" by (rule starts_with_subset)
    moreover obtain c where "c \<in> set m" "\<not> is_id_char c"
      using Cons.prems(1) marker_has_delimiter [of m] by auto
    ultimately show False
      using Cons.prems(2) by (auto simp: list_all_iff)
  qed
  with Cons show ?case by simp
qed

lemma search_marker_no_delimiter: "list_all is_id_char s \<Longrightarrow> search_marker s = None"
  by (induction s) (simp_all add: match_alts_no_delimiter)

lemma search_bare_id:
  "length v = 11 \<Longrightarrow> list_all is_id_char v \<Longrightarrow> search_bare v = Some v"
  by (simp add: search_bare_def match_id11_def)

lemma match_id11_prefix:
  "length v = 11 \<Longrightarrow> list_all is_id_char v \<Longrightarrow> match_id11 (v @ post) = Some v"
  by (simp add: match_id11_def)

lemma match_alts_at_marker:
  assumes "m \<in> set markers" "length v = 11" "list_all is_id_char v"
  shows "match_alts markers (m @ v @ post) = Some v"
proof -
  have id: "match_id11 (v @ post) = Some v"
    using assms(2,3) by (rule match_id11_prefix)
  from assms(1) consider "m = ''v=''" | "m = ''/v/''" | "m = ''youtu.be/''" | "m = ''/embed/''"
    by (auto simp: markers_def)
  then show ?thesis
    by cases (simp_all add: markers_def starts_with_def id)
qed

lemma search_marker_hit: "match_alts markers s = Some v \<Longrightarrow> search_marker s = Some v"
  by (cases s) simp_all

lemma search_marker_skip:
  "\<forall>i < length pre. match_alts markers (drop i (pre @ rest)) = None \<Longrightarrow>
   search_marker (pre @ rest) = search_marker rest"
proof (induction pre)
  case Nil
  then show ?case by simp
next
  case (Cons c pre)
  have head: "match_alts markers (c # pre @ rest) = None"
    using Cons.prems by (auto dest: spec [of _ 0])
  have "\<forall>i < length pre. match_alts markers (drop i (pre @ rest)) = None"
  proof (intro allI impI)
    fix i assume "i < length pre"
    then have "Suc i < length (c # pre)" by simp
    with Cons.prems have "match_alts markers (drop (Suc i) ((c # pre) @ rest)) = None"
      by blast
    then show "match_alts markers (drop i (pre @ rest)) = None" by simp
  qed
  with Cons.IH have "search_marker (pre @ rest) = search_marker rest" by simp
  with head show ?case by simp
qed

subsection \<open>Content size\<close>

lemma scrape_try_returns:
  assumes "scrape_url_try env sq = Inr r"
  shows "sr_success r \<and> (\<exists>c. content r = take 50000 c)"
  using assms
  by (auto simp: scrape_url_try_def Let_def split: sum.splits option.splits)

lemma scrape_try_success:
  assumes "client_get env (sq_url sq) = Inr response"
    and "raise_for_status response = None"
    and "BeautifulSoup env (body_text response) = Inr parsed"
    and "get_content env sq (decompose_all stripped_tags parsed) = Inr c"
  shows "scrape_url env sq =
           \<lparr>sr_url = sq_url sq, sr_title = get_title (decompose_all stripped_tags parsed),
            content = take 50000 c, sr_success = True, sr_error = None\<rparr>"
  using assms by (simp add: scrape_url_def scrape_url_try_def Let_def)

lemma scrape_raises:
  assumes "scrape_url_try env sq = Inl e"
  shows "\<not> sr_success (scrape_url env sq) \<and> content (scrape_url env sq) = []"
  using assms by (cases e) (simp_all add: scrape_url_def scrape_failure_def)

text \<open>
  C8. The content of every response of \<^verbatim>\<open>scrape_url\<close> has at most 50000 characters: a
  successful extraction returns the first 50000 characters of the extracted text and
  nothing else, and every failure, whatever raised it, returns the empty content with the
  success flag unset.
\<close>

theorem content_capped:
  "length (content (scrape_url env sq)) \<le> 50000
   \<and> (\<forall>response parsed c.
         client_get env (sq_url sq) = Inr response \<and> raise_for_status response = None
         \<and> BeautifulSoup env (body_text response) = Inr parsed
         \<and> get_content env sq (decompose_all stripped_tags parsed) = Inr c
         \<longrightarrow> sr_success (scrape_url env sq) \<and> content (scrape_url env sq) = take 50000 c)
   \<and> (\<not> sr_success (scrape_url env sq) \<longrightarrow> content (scrape_url env sq) = [])
   \<and> (\<forall>e. scrape_url_try env sq = Inl e \<longrightarrow>
         \<not> sr_success (scrape_url env sq) \<and> content (scrape_url env sq) = [])"
proof (intro conjI allI impI)
  show "length (content (scrape_url env sq)) \<le> 50000"
  proof (cases "scrape_url_try env sq")
    case (Inl e)
    then show ?thesis using scrape_raises [of env sq e] by simp
  next
    case (Inr r)
    then obtain c where "content r = take 50000 c"
      using scrape_try_returns by blast
    with Inr show ?thesis by (simp add: scrape_url_def)
  qed
next
  fix response parsed c
  assume a: "client_get env (sq_url sq) = Inr response \<and> raise_for_status response = None
         \<and> BeautifulSoup env (body_text response) = Inr parsed
         \<and> get_content env sq (decompose_all stripped_tags parsed) = Inr c"
  then have r: "scrape_url env sq =
           \<lparr>sr_url = sq_url sq, sr_title = get_title (decompose_all stripped_tags parsed),
            content = take 50000 c, sr_success = True, sr_error = None\<rparr>"
    by (intro scrape_try_success) blast+
  show "sr_success (scrape_url env sq)" by (simp add: r)
  show "content (scrape_url env sq) = take 50000 c" by (simp add: r)
next
  assume ns: "\<not> sr_success (scrape_url env sq)"
  show "content (scrape_url env sq) = []"
  proof (cases "scrape_url_try env sq")
    case (Inl e)
    then show ?thesis using scrape_raises [of env sq e] by simp
  next
    case (Inr r)
    then have "sr_success (scrape_url env sq)"
      using scrape_try_returns [of env sq r] by (simp add: scrape_url_def)
    with ns show ?thesis by simp
  qed
next
  fix e assume "scrape_url_try env sq = Inl e"
  then show "\<not> sr_success (scrape_url env sq)" "content (scrape_url env sq) = []"
    using scrape_raises [of env sq e] by simp_all
qed

lemma strip_id:
  assumes "s \<noteq> []" "\<not> is_space (hd s)" "\<not> is_space (last s)"
  shows "strip s = s"
proof -
  have d: "dropWhile is_space xs = xs" if "xs \<noteq> []" "\<not> is_space (hd xs)" for xs
    using that by (cases xs) simp_all
  have "dropWhile is_space s = s"
    using assms(1,2) by (rule d)
  moreover have "dropWhile is_space (rev s) = rev s"
    using assms(1,3) by (intro d) (simp_all add: hd_rev)
  ultimately show ?thesis
    by (simp add: strip_def)
qed

lemma a_not_space: "\<not> is_space (CHR ''a'')"
  by (simp add: is_space_def)

lemma strip_long: "strip (replicate 60000 (CHR ''a'')) = replicate 60000 (CHR ''a'')"
  by (rule strip_id) (simp_all only: a_not_space hd_replicate last_replicate replicate_empty, simp_all)


lemma long_not_demo: "replicate 60000 (CHR ''a'') \<noteq> ''<demo>''"
proof
  assume "replicate 60000 (CHR ''a'') = ''<demo>''"
  then have "length (replicate 60000 (CHR ''a'')) = length ''<demo>''"
    by (rule arg_cong)
  then show False by simp
qed

lemma long_not_empty: "replicate 60000 (CHR ''a'') \<noteq> []"
  by simp

lemma w_long_parse:
  "BeautifulSoup (sample_env (Inr long_response)) (body_text long_response) =
     Inr [Element ''body'' [Text (replicate 60000 (CHR ''a''))]]"
  by (simp add: sample_env_def long_response_def long_not_demo)

lemma w_long_content:
  "get_content (sample_env (Inr long_response)) \<lparr>sq_url = ''https://example.org/long'', selector = None\<rparr>
     (decompose_all stripped_tags [Element ''body'' [Text (replicate 60000 (CHR ''a''))]]) =
   Inr (replicate 60000 (CHR ''a''))"
  by (simp add: get_content_def find_main_def get_text_def stripped_tags_def strip_long long_not_empty)

theorem content_capped_witness:
  "content (scrape_url (sample_env (Inr long_response))
      \<lparr>sq_url = ''https://example.org/long'', selector = None\<rparr>) = replicate 50000 (CHR ''a'')
   \<and> length (content (scrape_url (sample_env (Inr long_response))
      \<lparr>sq_url = ''https://example.org/long'', selector = None\<rparr>)) \<le> 50000
   \<and> content (scrape_url (sample_env (Inr not_found_response))
      \<lparr>sq_url = ''https://example.org/x'', selector = None\<rparr>) = []"
proof -
  let ?env = "sample_env (Inr long_response)"
  let ?sq = "\<lparr>sq_url = ''https://example.org/long'', selector = None\<rparr>"
  have prem: "client_get ?env (sq_url ?sq) = Inr long_response \<and> raise_for_status long_response = None
         \<and> BeautifulSoup ?env (body_text long_response) =
             Inr [Element ''body'' [Text (replicate 60000 (CHR ''a''))]]
         \<and> get_content ?env ?sq
             (decompose_all stripped_tags [Element ''body'' [Text (replicate 60000 (CHR ''a''))]]) =
             Inr (replicate 60000 (CHR ''a''))"
    using w_long_parse w_long_content by (simp add: sample_env_def long_response_def)
  note cap = content_capped [of ?env ?sq]
  from cap have success_rule:
    "\<forall>response parsed c.
         client_get ?env (sq_url ?sq) = Inr response \<and> raise_for_status response = None
         \<and> BeautifulSoup ?env (body_text response) = Inr parsed
         \<and> get_content ?env ?sq (decompose_all stripped_tags parsed) = Inr c
         \<longrightarrow> sr_success (scrape_url ?env ?sq) \<and> content (scrape_url ?env ?sq) = take 50000 c"
    by (elim conjE)
  have "content (scrape_url ?env ?sq) = take 50000 (replicate 60000 (CHR ''a''))"
    using success_rule [rule_format, OF prem] by (rule conjunct2)
  then have c1: "content (scrape_url ?env ?sq) = replicate 50000 (CHR ''a'')"
    by simp
  from cap have c2: "length (content (scrape_url ?env ?sq)) \<le> 50000"
    by (elim conjE)
  from content_capped [of "sample_env (Inr not_found_response)"
      "\<lparr>sq_url = ''https://example.org/x'', selector = None\<rparr>"]
  have fail_rule: "\<forall>e. scrape_url_try (sample_env (Inr not_found_response))
         \<lparr>sq_url = ''https://example.org/x'', selector = None\<rparr> = Inl e \<longrightarrow>
       \<not> sr_success (scrape_url (sample_env (Inr not_found_response))
         \<lparr>sq_url = ''https://example.org/x'', selector = None\<rparr>)
       \<and> content (scrape_url (sample_env (Inr not_found_response))
         \<lparr>sq_url = ''https://example.org/x'', selector = None\<rparr>) = []"
    by (elim conjE)
  have c3: "content (scrape_url (sample_env (Inr not_found_response))
      \<lparr>sq_url = ''https://example.org/x'', selector = None\<rparr>) = []"
    using fail_rule [rule_format, OF w_status] by (rule conjunct2)
  show ?thesis
    using c1 c2 c3 by (intro conjI)
qed

subsection \<open>Content extraction\<close>

lemma decompose_all_clean: "set (tags_of (decompose_all tags soup)) \<inter> set tags = {}"
  by (induction tags soup rule: decompose_all.induct) auto

lemma decompose_all_idem: "decompose_all tags (decompose_all tags soup) = decompose_all tags soup"
  by (induction tags soup rule: decompose_all.induct) auto

lemma get_content_selector:
  assumes "selector sq = Some s" "s \<noteq> []" "select env s soup = Inr elements"
  shows "get_content env sq soup = Inr (str_join [CHR 0x0A] (map (get_text [] True) elements))"
  using assms by (simp add: get_content_def)

lemma get_content_fallback:
  assumes "selector sq = None \<or> selector sq = Some []"
  shows "get_content env sq soup =
     Inr (case find_main soup of Some m \<Rightarrow> get_text [CHR 0x0A] True m | None \<Rightarrow> [])"
  using assms by (auto simp: get_content_def split: option.splits)

lemma w_pruned:
  "decompose_all stripped_tags sample_page =
     [Element ''html''
        [Element ''head'' [Element ''title'' [Text ''Demo'']],
         Element ''body''
           [Element ''h1'' [Text '' First ''], Element ''h1'' [Text ''Second''],
            Element ''p'' [Text ''Hello '', Element ''b'' [Text ''world'']],
            Element ''h1'' [Text ''Third'']]]]"
  by code_simp

lemma w_select_h1:
  "select (sample_env (Inr demo_response)) ''h1'' (decompose_all stripped_tags sample_page) =
     Inr [Element ''h1'' [Text '' First ''], Element ''h1'' [Text ''Second''],
          Element ''h1'' [Text ''Third'']]"
  by code_simp

lemma w_join_h1:
  "str_join [CHR 0x0A] (map (get_text [] True)
     [Element ''h1'' [Text '' First ''], Element ''h1'' [Text ''Second''],
      Element ''h1'' [Text ''Third'']]) = ''First\<newline>Second\<newline>Third''"
  by code_simp

lemma w_regions:
  "find_tag ''main'' (decompose_all stripped_tags sample_page) = None
   \<and> find_tag ''article'' (decompose_all stripped_tags sample_page) = None
   \<and> find_tag ''body'' (decompose_all stripped_tags sample_page) =
       Some (Element ''body''
           [Element ''h1'' [Text '' First ''], Element ''h1'' [Text ''Second''],
            Element ''p'' [Text ''Hello '', Element ''b'' [Text ''world'']],
            Element ''h1'' [Text ''Third'']])"
  by code_simp

lemma w_body_text:
  "get_text [CHR 0x0A] True (Element ''body''
           [Element ''h1'' [Text '' First ''], Element ''h1'' [Text ''Second''],
            Element ''p'' [Text ''Hello '', Element ''b'' [Text ''world'']],
            Element ''h1'' [Text ''Third'']]) =
     ''First\<newline>Second\<newline>Hello\<newline>world\<newline>Third''"
  by code_simp

lemma w_fetch:
  "client_get (sample_env (Inr demo_response)) u = Inr demo_response
   \<and> raise_for_status demo_response = None
   \<and> BeautifulSoup (sample_env (Inr demo_response)) (body_text demo_response) = Inr sample_page"
  by (simp add: sample_env_def demo_response_def)

lemma w_empty_content:
  "get_content (sample_env (Inr demo_response))
      \<lparr>sq_url = ''https://example.org/x'', selector = Some ''''\<rparr>
      (decompose_all stripped_tags sample_page) =
     Inr ''First\<newline>Second\<newline>Hello\<newline>world\<newline>Third''"
  by code_simp

lemma w_empty_selector:
  "content (scrape_url (sample_env (Inr demo_response))
      \<lparr>sq_url = ''https://example.org/x'', selector = Some ''''\<rparr>) =
     ''First\<newline>Second\<newline>Hello\<newline>world\<newline>Third''"
proof -
  have f1: "client_get (sample_env (Inr demo_response))
      (sq_url \<lparr>sq_url = ''https://example.org/x'', selector = Some ''''\<rparr>) = Inr demo_response"
    using w_fetch by (rule conjunct1)
  have f2: "raise_for_status demo_response = None"
    using w_fetch [of "[]"] by (elim conjE)
  have f3: "BeautifulSoup (sample_env (Inr demo_response)) (body_text demo_response) = Inr sample_page"
    using w_fetch [of "[]"] by (elim conjE)
  have "content (scrape_url (sample_env (Inr demo_response))
      \<lparr>sq_url = ''https://example.org/x'', selector = Some ''''\<rparr>) =
     take 50000 ''First\<newline>Second\<newline>Hello\<newline>world\<newline>Third''"
    by (simp only: scrape_try_success [OF f1 f2 f3 w_empty_content] ScrapeResponse.simps)
  then show ?thesis
    by simp
qed

lemma w_select_empty:
  "select (sample_env (Inr demo_response)) '''' (decompose_all stripped_tags sample_page) = Inr []"
  by code_simp

subsection \<open>Faults of the collaborators\<close>

lemma scrape_except_fault: "scrape_fault sq e (scrape_except sq e)"
  by (cases e) (simp_all add: scrape_fault_def scrape_failure_def)

lemma transcript_except_fault: "transcript_fault rq e (transcript_except rq e)"
  by (cases e) (simp_all add: transcript_fault_def transcript_failure_def)

lemma scrape_raise_fault:
  "scrape_url_try env sq = Inl e \<Longrightarrow> scrape_fault sq e (scrape_url env sq)"
  by (simp add: scrape_url_def scrape_except_fault)

lemma transcript_raise_fault:
  "get_youtube_transcript_try api rq = Inl e \<Longrightarrow> transcript_fault rq e (get_youtube_transcript api rq)"
  by (simp add: get_youtube_transcript_def transcript_except_fault)

lemma search_preferred_raise:
  assumes "\<forall>k \<in> set pre. is_not_found (find_transcript tlist [k])"
    and "find_transcript tlist [l] = Inl e"
    and "\<forall>m. e \<noteq> NoTranscriptFound m"
  shows "search_preferred tlist (pre @ l # post) = Inl e"
proof -
  have "search_preferred tlist (l # post) = Inl e"
    using assms(2,3) by (cases e) simp_all
  then show ?thesis
    using assms(1) by (simp add: search_preferred_skip)
qed

lemma search_fallback_raise:
  assumes "find_generated_transcript tlist langs = Inl e"
    and "\<forall>m. e \<noteq> NoTranscriptFound m"
  shows "search_fallback tlist langs = Inl e"
  using assms by (cases e) (simp_all add: search_fallback_def)

lemma selects_fetch:
  assumes "selects tlist langs t"
  shows "\<exists>lang. (case search_preferred tlist langs of
            Inl e \<Rightarrow> False
          | Inr (None, l) \<Rightarrow> search_fallback tlist langs = Inr (Some t, lang)
          | Inr (Some u, l) \<Rightarrow> u = t)"
  using assms unfolding selects_def
proof (elim disjE exE conjE)
  fix pre l post
  assume "langs = pre @ l # post" "\<forall>k \<in> set pre. is_not_found (find_transcript tlist [k])"
    "find_transcript tlist [l] = Inr t"
  then show ?thesis by (simp add: search_preferred_hit)
next
  assume "\<forall>k \<in> set langs. is_not_found (find_transcript tlist [k])"
    "find_generated_transcript tlist langs = Inr t"
  then show ?thesis by (simp add: search_preferred_none search_fallback_def)
next
  fix ts
  assume "\<forall>k \<in> set langs. is_not_found (find_transcript tlist [k])"
    "is_not_found (find_generated_transcript tlist langs)" "iter tlist = t # ts"
  then show ?thesis
    by (auto simp: search_preferred_none search_fallback_def is_not_found_iff)
qed

lemma fetch_raise:
  assumes "extract_video_id (tq_url rq) = Inr vid" "api vid = Inr tlist"
    and "selects tlist (tq_languages rq) t" "fetch t = Inl e"
  shows "get_youtube_transcript_try api rq = Inl e"
  using selects_fetch [OF assms(3)] assms(1,2,4)
  by (auto simp: get_youtube_transcript_try_def split: sum.splits option.splits prod.splits)

lemma scrape_shape:
  "(sr_success (scrape_url env sq) \<and> sr_error (scrape_url env sq) = None)
   \<or> (\<not> sr_success (scrape_url env sq) \<and> content (scrape_url env sq) = []
       \<and> sr_error (scrape_url env sq) \<noteq> None)"
proof (cases "scrape_url_try env sq")
  case (Inl e)
  then show ?thesis using scrape_raise_fault [of env sq e] by (simp add: scrape_fault_def)
next
  case (Inr r)
  then show ?thesis
    by (auto simp: scrape_url_def scrape_url_try_def Let_def split: sum.splits option.splits)
qed

lemma transcript_shape:
  "(tr_success (get_youtube_transcript api rq) \<and> tr_error (get_youtube_transcript api rq) = None)
   \<or> (\<not> tr_success (get_youtube_transcript api rq) \<and> transcript (get_youtube_transcript api rq) = []
       \<and> tr_error (get_youtube_transcript api rq) \<noteq> None)"
proof (cases "get_youtube_transcript_try api rq")
  case (Inl e)
  then show ?thesis using transcript_raise_fault [of api rq e] by (simp add: transcript_fault_def)
next
  case (Inr r)
  then show ?thesis
    by (auto simp: get_youtube_transcript_def get_youtube_transcript_try_def
        split: sum.splits option.splits prod.splits)
qed

lemma scrape_try_get_raise:
  "client_get env (sq_url sq) = Inl e \<Longrightarrow> scrape_url_try env sq = Inl e"
  by (simp add: scrape_url_try_def)

lemma scrape_try_status_raise:
  "client_get env (sq_url sq) = Inr response \<Longrightarrow> raise_for_status response = Some e \<Longrightarrow>
   scrape_url_try env sq = Inl e"
  by (simp add: scrape_url_try_def)

lemma scrape_try_parse_raise:
  "client_get env (sq_url sq) = Inr response \<Longrightarrow> raise_for_status response = None \<Longrightarrow>
   BeautifulSoup env (body_text response) = Inl e \<Longrightarrow> scrape_url_try env sq = Inl e"
  by (simp add: scrape_url_try_def)

lemma scrape_try_select_raise:
  "client_get env (sq_url sq) = Inr response \<Longrightarrow> raise_for_status response = None \<Longrightarrow>
   BeautifulSoup env (body_text response) = Inr parsed \<Longrightarrow>
   selector sq = Some s \<Longrightarrow> s \<noteq> [] \<Longrightarrow>
   select env s (decompose_all stripped_tags parsed) = Inl e \<Longrightarrow> scrape_url_try env sq = Inl e"
  by (simp add: scrape_url_try_def get_content_def Let_def)

lemma transcript_try_list_raise:
  "extract_video_id (tq_url rq) = Inr vid \<Longrightarrow> api vid = Inl e \<Longrightarrow>
   get_youtube_transcript_try api rq = Inl e"
  by (simp add: get_youtube_transcript_try_def)

lemma transcript_try_find_raise:
  "extract_video_id (tq_url rq) = Inr vid \<Longrightarrow> api vid = Inr tlist \<Longrightarrow>
   tq_languages rq = pre @ l # post \<Longrightarrow>
   \<forall>k \<in> set pre. is_not_found (find_transcript tlist [k]) \<Longrightarrow>
   find_transcript tlist [l] = Inl e \<Longrightarrow> \<forall>m. e \<noteq> NoTranscriptFound m \<Longrightarrow>
   get_youtube_transcript_try api rq = Inl e"
  by (simp add: get_youtube_transcript_try_def search_preferred_raise)

lemma transcript_try_generated_raise:
  "extract_video_id (tq_url rq) = Inr vid \<Longrightarrow> api vid = Inr tlist \<Longrightarrow>
   \<forall>k \<in> set (tq_languages rq). is_not_found (find_transcript tlist [k]) \<Longrightarrow>
   find_generated_transcript tlist (tq_languages rq) = Inl e \<Longrightarrow> \<forall>m. e \<noteq> NoTranscriptFound m \<Longrightarrow>
   get_youtube_transcript_try api rq = Inl e"
  by (simp add: get_youtube_transcript_try_def search_preferred_none search_fallback_raise)

text \<open>
  C3. Both endpoints return exactly one well-formed response for every input and every
  behaviour of their collaborators, and every fault is captured in it. For
  \<^verbatim>\<open>scrape_url\<close>: a fault of the HTTP client, of the status check, of the markup parser or
  of the selector engine gives the response with the success flag unset, empty content
  and the fault's text. For \<^verbatim>\<open>get_youtube_transcript\<close>: a fault of the identifier parser,
  of the enumeration, of a lookup (other than \<^verbatim>\<open>NoTranscriptFound\<close>, which continues the
  search) or of the fetch of the selected transcript gives the response with the success
  flag unset and the fault's text. Every response either has the success flag set and no
  error, or the flag unset and an error text.
\<close>

theorem endpoints_capture_faults:
  "(\<forall>e. client_get env (sq_url sq) = Inl e \<longrightarrow> scrape_fault sq e (scrape_url env sq))
   \<and> (\<forall>response e.
         client_get env (sq_url sq) = Inr response \<and> raise_for_status response = Some e \<longrightarrow>
         scrape_fault sq e (scrape_url env sq))
   \<and> (\<forall>response e.
         client_get env (sq_url sq) = Inr response \<and> raise_for_status response = None
         \<and> BeautifulSoup env (body_text response) = Inl e \<longrightarrow>
         scrape_fault sq e (scrape_url env sq))
   \<and> (\<forall>response parsed s e.
         client_get env (sq_url sq) = Inr response \<and> raise_for_status response = None
         \<and> BeautifulSoup env (body_text response) = Inr parsed
         \<and> selector sq = Some s \<and> s \<noteq> []
         \<and> select env s (decompose_all stripped_tags parsed) = Inl e \<longrightarrow>
         scrape_fault sq e (scrape_url env sq))
   \<and> ((sr_success (scrape_url env sq) \<and> sr_error (scrape_url env sq) = None)
       \<or> (\<not> sr_success (scrape_url env sq) \<and> content (scrape_url env sq) = []
           \<and> sr_error (scrape_url env sq) \<noteq> None))
   \<and> (\<forall>e. extract_video_id (tq_url rq) = Inl e \<longrightarrow>
         transcript_fault rq e (get_youtube_transcript api rq))
   \<and> (\<forall>vid e. extract_video_id (tq_url rq) = Inr vid \<and> api vid = Inl e \<longrightarrow>
         transcript_fault rq e (get_youtube_transcript api rq))
   \<and> (\<forall>vid tlist pre l post e.
         extract_video_id (tq_url rq) = Inr vid \<and> api vid = Inr tlist
         \<and> tq_languages rq = pre @ l # post
         \<and> (\<forall>k \<in> set pre. is_not_found (find_transcript tlist [k]))
         \<and> find_transcript tlist [l] = Inl e \<and> (\<forall>m. e \<noteq> NoTranscriptFound m) \<longrightarrow>
         transcript_fault rq e (get_youtube_transcript api rq))
   \<and> (\<forall>vid tlist e.
         extract_video_id (tq_url rq) = Inr vid \<and> api vid = Inr tlist
         \<and> (\<forall>k \<in> set (tq_languages rq). is_not_found (find_transcript tlist [k]))
         \<and> find_generated_transcript tlist (tq_languages rq) = Inl e
         \<and> (\<forall>m. e \<noteq> NoTranscriptFound m) \<longrightarrow>
         transcript_fault rq e (get_youtube_transcript api rq))
   \<and> (\<forall>vid tlist t e.
         extract_video_id (tq_url rq) = Inr vid \<and> api vid = Inr tlist
         \<and> selects tlist (tq_languages rq) t \<and> fetch t = Inl e \<longrightarrow>
         transcript_fault rq e (get_youtube_transcript api rq))
   \<and> ((tr_success (get_youtube_transcript api rq) \<and> tr_error (get_youtube_transcript api rq) = None)
       \<or> (\<not> tr_success (get_youtube_transcript api rq)
           \<and> transcript (get_youtube_transcript api rq) = []
           \<and> tr_error (get_youtube_transcript api rq) \<noteq> None))"
proof (intro conjI allI impI)
  fix e assume "client_get env (sq_url sq) = Inl e"
  then show "scrape_fault sq e (scrape_url env sq)"
    by (intro scrape_raise_fault scrape_try_get_raise)
next
  fix response e
  assume a: "client_get env (sq_url sq) = Inr response \<and> raise_for_status response = Some e"
  from a have a1: "client_get env (sq_url sq) = Inr response" by (elim conjE)
  from a have a2: "raise_for_status response = Some e" by (elim conjE)
  show "scrape_fault sq e (scrape_url env sq)"
    by (rule scrape_raise_fault) (rule scrape_try_status_raise [OF a1 a2])
next
  fix response e
  assume a: "client_get env (sq_url sq) = Inr response \<and> raise_for_status response = None
         \<and> BeautifulSoup env (body_text response) = Inl e"
  from a have a1: "client_get env (sq_url sq) = Inr response" by (elim conjE)
  from a have a2: "raise_for_status response = None" by (elim conjE)
  from a have a3: "BeautifulSoup env (body_text response) = Inl e" by (elim conjE)
  show "scrape_fault sq e (scrape_url env sq)"
    by (rule scrape_raise_fault) (rule scrape_try_parse_raise [OF a1 a2 a3])
next
  fix response parsed s e
  assume a: "client_get env (sq_url sq) = Inr response \<and> raise_for_status response = None
         \<and> BeautifulSoup env (body_text response) = Inr parsed
         \<and> selector sq = Some s \<and> s \<noteq> []
         \<and> select env s (decompose_all stripped_tags parsed) = Inl e"
  from a have a1: "client_get env (sq_url sq) = Inr response" by (elim conjE)
  from a have a2: "raise_for_status response = None" by (elim conjE)
  from a have a3: "BeautifulSoup env (body_text response) = Inr parsed" by (elim conjE)
  from a have a4: "selector sq = Some s" by (elim conjE)
  from a have a5: "s \<noteq> []" by (elim conjE)
  from a have a6: "select env s (decompose_all stripped_tags parsed) = Inl e" by (elim conjE)
  show "scrape_fault sq e (scrape_url env sq)"
    by (rule scrape_raise_fault) (rule scrape_try_select_raise [OF a1 a2 a3 a4 a5 a6])
next
  show "(sr_success (scrape_url env sq) \<and> sr_error (scrape_url env sq) = None)
       \<or> (\<not> sr_success (scrape_url env sq) \<and> content (scrape_url env sq) = []
           \<and> sr_error (scrape_url env sq) \<noteq> None)"
    by (rule scrape_shape)
next
  fix e assume "extract_video_id (tq_url rq) = Inl e"
  then show "transcript_fault rq e (get_youtube_transcript api rq)"
    by (intro transcript_raise_fault parse_failure_raises)
next
  fix vid e
  assume a: "extract_video_id (tq_url rq) = Inr vid \<and> api vid = Inl e"
  from a have a1: "extract_video_id (tq_url rq) = Inr vid" by (elim conjE)
  from a have a2: "api vid = Inl e" by (elim conjE)
  show "transcript_fault rq e (get_youtube_transcript api rq)"
    by (rule transcript_raise_fault) (rule transcript_try_list_raise [where api = api, OF a1 a2])
next
  fix vid tlist pre l post e
  assume a: "extract_video_id (tq_url rq) = Inr vid \<and> api vid = Inr tlist
         \<and> tq_languages rq = pre @ l # post
         \<and> (\<forall>k \<in> set pre. is_not_found (find_transcript tlist [k]))
         \<and> find_transcript tlist [l] = Inl e \<and> (\<forall>m. e \<noteq> NoTranscriptFound m)"
  from a have a1: "extract_video_id (tq_url rq) = Inr vid" by (elim conjE)
  from a have a2: "api vid = Inr tlist" by (elim conjE)
  from a have a3: "tq_languages rq = pre @ l # post" by (elim conjE)
  from a have a4: "\<forall>k \<in> set pre. is_not_found (find_transcript tlist [k])" by (elim conjE)
  from a have a5: "find_transcript tlist [l] = Inl e" by (elim conjE)
  from a have a6: "\<forall>m. e \<noteq> NoTranscriptFound m" by (elim conjE)
  show "transcript_fault rq e (get_youtube_transcript api rq)"
    by (rule transcript_raise_fault) (rule transcript_try_find_raise [where api = api, OF a1 a2 a3 a4 a5 a6])
next
  fix vid tlist e
  assume a: "extract_video_id (tq_url rq) = Inr vid \<and> api vid = Inr tlist
         \<and> (\<forall>k \<in> set (tq_languages rq). is_not_found (find_transcript tlist [k]))
         \<and> find_generated_transcript tlist (tq_languages rq) = Inl e
         \<and> (\<forall>m. e \<noteq> NoTranscriptFound m)"
  from a have a1: "extract_video_id (tq_url rq) = Inr vid" by (elim conjE)
  from a have a2: "api vid = Inr tlist" by (elim conjE)
  from a have a3: "\<forall>k \<in> set (tq_languages rq). is_not_found (find_transcript tlist [k])"
    by (elim conjE)
  from a have a4: "find_generated_transcript tlist (tq_languages rq) = Inl e" by (elim conjE)
  from a have a5: "\<forall>m. e \<noteq> NoTranscriptFound m" by (elim conjE)
  show "transcript_fault rq e (get_youtube_transcript api rq)"
    by (rule transcript_raise_fault) (rule transcript_try_generated_raise [where api = api, OF a1 a2 a3 a4 a5])
next
  fix vid tlist t e
  assume a: "extract_video_id (tq_url rq) = Inr vid \<and> api vid = Inr tlist
         \<and> selects tlist (tq_languages rq) t \<and> fetch t = Inl e"
  from a have a1: "extract_video_id (tq_url rq) = Inr vid" by (elim conjE)
  from a have a2: "api vid = Inr tlist" by (elim conjE)
  from a have a3: "selects tlist (tq_languages rq) t" by (elim conjE)
  from a have a4: "fetch t = Inl e" by (elim conjE)
  show "transcript_fault rq e (get_youtube_transcript api rq)"
    by (rule transcript_raise_fault) (rule fetch_raise [where api = api, OF a1 a2 a3 a4])
next
  show "(tr_success (get_youtube_transcript api rq) \<and> tr_error (get_youtube_transcript api rq) = None)
       \<or> (\<not> tr_success (get_youtube_transcript api rq)
           \<and> transcript (get_youtube_transcript api rq) = []
           \<and> tr_error (get_youtube_transcript api rq) \<noteq> None)"
    by (rule transcript_shape)
qed

lemma w_timeout_lookup:
  "timeout_api ''dQw4w9WgXcQ'' =
     Inr \<lparr>find_transcript = (\<lambda>codes. Inl (OtherException ''timed out'')),
          find_generated_transcript = (\<lambda>codes. Inl (OtherException ''timed out'')),
          iter = []\<rparr>"
  by (simp add: timeout_api_def)

lemma w_short_id: "extract_video_id ''https://youtu.be/dQw4w9WgXcQ'' = Inr ''dQw4w9WgXcQ''"
  by code_simp

lemma w_other_id: "extract_video_id ''https://youtu.be/AAAAAAAAAAA'' = Inr ''AAAAAAAAAAA''"
  by code_simp

theorem endpoints_capture_faults_witness:
  "sr_error (scrape_url (sample_env (Inl (OtherException ''timed out'')))
       \<lparr>sq_url = ''https://example.org/x'', selector = None\<rparr>) = Some ''timed out''
   \<and> sr_error (scrape_url (sample_env (Inr not_found_response))
       \<lparr>sq_url = ''https://example.org/x'', selector = None\<rparr>) = Some ''HTTP error 404''
   \<and> sr_error (scrape_url broken_parser_env
       \<lparr>sq_url = ''https://example.org/x'', selector = None\<rparr>) = Some ''markup error''
   \<and> sr_error (scrape_url (sample_env (Inr demo_response))
       \<lparr>sq_url = ''https://example.org/x'', selector = Some ''[''\<rparr>) =
       Some ''Malformed attribute selector''
   \<and> \<not> sr_success (scrape_url broken_parser_env
       \<lparr>sq_url = ''https://example.org/x'', selector = None\<rparr>)
   \<and> tr_error (get_youtube_transcript (sample_api [en_manual])
       \<lparr>tq_url = ''not a video'', tq_languages = [''en'']\<rparr>) =
       Some ''Could not extract video ID from: not a video''
   \<and> tr_error (get_youtube_transcript (sample_api [en_manual])
       \<lparr>tq_url = ''https://youtu.be/AAAAAAAAAAA'', tq_languages = [''en'']\<rparr>) =
       Some ''Transcripts are disabled for this video''
   \<and> tr_error (get_youtube_transcript timeout_api
       \<lparr>tq_url = ''https://youtu.be/dQw4w9WgXcQ'', tq_languages = [''en'']\<rparr>) = Some ''timed out''
   \<and> tr_error (get_youtube_transcript (sample_api [broken_track])
       \<lparr>tq_url = ''https://youtu.be/dQw4w9WgXcQ'', tq_languages = [''en'']\<rparr>) =
       Some ''connection reset''
   \<and> \<not> tr_success (get_youtube_transcript (sample_api [broken_track])
       \<lparr>tq_url = ''https://youtu.be/dQw4w9WgXcQ'', tq_languages = [''en'']\<rparr>)"
proof -
  let ?sq = "\<lparr>sq_url = ''https://example.org/x'', selector = None\<rparr>"
  let ?sqb = "\<lparr>sq_url = ''https://example.org/x'', selector = Some ''[''\<rparr>"
  let ?rq = "\<lparr>tq_url = ''https://youtu.be/dQw4w9WgXcQ'', tq_languages = [''en'']\<rparr>"
  let ?rqa = "\<lparr>tq_url = ''https://youtu.be/AAAAAAAAAAA'', tq_languages = [''en'']\<rparr>"
  let ?rqn = "\<lparr>tq_url = ''not a video'', tq_languages = [''en'']\<rparr>"
  let ?tl = "\<lparr>find_transcript = (\<lambda>codes. Inl (OtherException ''timed out'')),
          find_generated_transcript = (\<lambda>codes. Inl (OtherException ''timed out'')),
          iter = []\<rparr>"
  note a = endpoints_capture_faults [where env = "sample_env (Inl (OtherException ''timed out''))"
      and sq = ?sq and api = "sample_api [en_manual]" and rq = ?rqn]
  note b = endpoints_capture_faults [where env = "sample_env (Inr not_found_response)"
      and sq = ?sq and api = "sample_api [en_manual]" and rq = ?rqa]
  note c = endpoints_capture_faults [where env = broken_parser_env
      and sq = ?sq and api = timeout_api and rq = ?rq]
  note d = endpoints_capture_faults [where env = "sample_env (Inr demo_response)"
      and sq = ?sqb and api = "sample_api [broken_track]" and rq = ?rq]
  have s1: "scrape_fault ?sq (OtherException ''timed out'')
      (scrape_url (sample_env (Inl (OtherException ''timed out''))) ?sq)"
    by (rule a [THEN conjunct1, rule_format]) (simp add: sample_env_def)
  have s2: "scrape_fault ?sq (HTTPStatusError 404 ''Client error 404 Not Found'')
      (scrape_url (sample_env (Inr not_found_response)) ?sq)"
    by (rule b [THEN conjunct2, THEN conjunct1, rule_format, where response = not_found_response])
      (simp add: sample_env_def not_found_response_def)
  have s3: "scrape_fault ?sq (OtherException ''markup error'') (scrape_url broken_parser_env ?sq)"
    by (rule c [THEN conjunct2, THEN conjunct2, THEN conjunct1, rule_format,
          where response = demo_response])
      (simp add: broken_parser_env_def demo_response_def)
  have s4: "scrape_fault ?sqb (OtherException ''Malformed attribute selector'')
      (scrape_url (sample_env (Inr demo_response)) ?sqb)"
    by (rule d [THEN conjunct2, THEN conjunct2, THEN conjunct2, THEN conjunct1, rule_format,
          where response = demo_response and parsed = sample_page and s = "''[''"])
      (simp add: sample_env_def demo_response_def)
  have t1: "transcript_fault ?rqn (ValueError ''Could not extract video ID from: not a video'')
      (get_youtube_transcript (sample_api [en_manual]) ?rqn)"
    by (rule a [THEN conjunct2, THEN conjunct2, THEN conjunct2, THEN conjunct2, THEN conjunct2,
          THEN conjunct1, rule_format]) (rule w_invalid)
  have t2: "transcript_fault ?rqa (TranscriptsDisabled ''Subtitles are disabled for this video'')
      (get_youtube_transcript (sample_api [en_manual]) ?rqa)"
    by (rule b [THEN conjunct2, THEN conjunct2, THEN conjunct2, THEN conjunct2, THEN conjunct2,
          THEN conjunct2, THEN conjunct1, rule_format, where vid = "''AAAAAAAAAAA''"])
      (simp add: w_other_id sample_api_def)
  have t3: "transcript_fault ?rq (OtherException ''timed out'') (get_youtube_transcript timeout_api ?rq)"
    by (rule c [THEN conjunct2, THEN conjunct2, THEN conjunct2, THEN conjunct2, THEN conjunct2,
          THEN conjunct2, THEN conjunct2, THEN conjunct1, rule_format,
          where vid = "''dQw4w9WgXcQ''" and tlist = ?tl and pre = "[]" and l = "''en''" and post = "[]"])
      (simp add: w_short_id timeout_api_def)
  have sel: "selects (track_list [broken_track]) [''en''] broken_track"
    unfolding selects_def
    by (rule disjI1, rule exI [of _ "[]"], rule exI [of _ "''en''"], rule exI [of _ "[]"])
      (simp add: track_list_def broken_track_def)
  have p5: "extract_video_id (tq_url ?rq) = Inr ''dQw4w9WgXcQ''
      \<and> sample_api [broken_track] ''dQw4w9WgXcQ'' = Inr (track_list [broken_track])
      \<and> selects (track_list [broken_track]) (tq_languages ?rq) broken_track
      \<and> fetch broken_track = Inl (OtherException ''connection reset'')"
    using sel by (simp add: w_short_id sample_api_def broken_track_def)
  have t5: "transcript_fault ?rq (OtherException ''connection reset'')
      (get_youtube_transcript (sample_api [broken_track]) ?rq)"
    by (rule d [THEN conjunct2, THEN conjunct2, THEN conjunct2, THEN conjunct2, THEN conjunct2,
          THEN conjunct2, THEN conjunct2, THEN conjunct2, THEN conjunct2, THEN conjunct1, rule_format,
          OF p5])
  show ?thesis
    using s1 s2 s3 s4 t1 t2 t3 t5
    by (simp add: scrape_fault_def transcript_fault_def str_nat_404)
qed

subsection \<open>Video identifiers against the specification\<close>

lemma alphabet_lower: "list_all (\<lambda>n. char_of n \<in> set id_alphabet) [97::nat..<123]"
  by (simp add: id_alphabet_def upt_rec_numeral char_of_def bit_0)

lemma alphabet_upper: "list_all (\<lambda>n. char_of n \<in> set id_alphabet) [65::nat..<91]"
  by (simp add: id_alphabet_def upt_rec_numeral char_of_def bit_0)

lemma alphabet_digit: "list_all (\<lambda>n. char_of n \<in> set id_alphabet) [48::nat..<58]"
  by (simp add: id_alphabet_def upt_rec_numeral char_of_def bit_0)

lemma alphabet_is_id_char: "c \<in> set id_alphabet \<Longrightarrow> is_id_char c"
  by (auto simp: id_alphabet_def is_id_char_def)

lemma is_id_char_alphabet: "is_id_char c \<longleftrightarrow> c \<in> set id_alphabet"
proof
  assume a: "is_id_char c"
  let ?n = "of_char c :: nat"
  have c: "char_of ?n = c" by simp
  from a consider "97 \<le> ?n \<and> ?n < 123" | "65 \<le> ?n \<and> ?n < 91" | "48 \<le> ?n \<and> ?n < 58"
    | "c = CHR ''_''" | "c = CHR ''-''"
    unfolding is_id_char_def Let_def by force
  then show "c \<in> set id_alphabet"
  proof cases
    case 1
    then have "?n \<in> set [97..<123]" by (simp only: set_upt atLeastLessThan_iff)
    with alphabet_lower have "char_of ?n \<in> set id_alphabet"
      unfolding list_all_iff by blast
    with c show ?thesis by simp
  next
    case 2
    then have "?n \<in> set [65..<91]" by (simp only: set_upt atLeastLessThan_iff)
    with alphabet_upper have "char_of ?n \<in> set id_alphabet"
      unfolding list_all_iff by blast
    with c show ?thesis by simp
  next
    case 3
    then have "?n \<in> set [48..<58]" by (simp only: set_upt atLeastLessThan_iff)
    with alphabet_digit have "char_of ?n \<in> set id_alphabet"
      unfolding list_all_iff by blast
    with c show ?thesis by simp
  next
    case 4
    then show ?thesis by (simp add: id_alphabet_def)
  next
    case 5
    then show ?thesis by (simp add: id_alphabet_def)
  qed
next
  assume "c \<in> set id_alphabet"
  then show "is_id_char c" by (rule alphabet_is_id_char)
qed

lemma is_identifier_iff: "is_identifier v \<longleftrightarrow> length v = 11 \<and> list_all is_id_char v"
  by (simp add: is_identifier_def list_all_iff is_id_char_alphabet)

lemma match_id11_iff: "match_id11 s = Some v \<longleftrightarrow> is_identifier v \<and> take 11 s = v"
  by (auto simp: match_id11_def is_identifier_iff)

lemma alternative_iff:
  "starts_with m s \<and> match_id11 (drop (length m) s) = Some v
   \<longleftrightarrow> is_identifier v \<and> take (length m + 11) s = m @ v"
proof -
  have split: "take (length m + 11) s = take (length m) s @ take 11 (drop (length m) s)"
    by (rule take_add)
  show ?thesis
  proof
    assume "starts_with m s \<and> match_id11 (drop (length m) s) = Some v"
    then show "is_identifier v \<and> take (length m + 11) s = m @ v"
      by (simp add: split starts_with_def match_id11_iff)
  next
    assume a: "is_identifier v \<and> take (length m + 11) s = m @ v"
    then have len: "length v = 11" by (simp add: is_identifier_def)
    from a have eq: "take (length m) s @ take 11 (drop (length m) s) = m @ v"
      by (simp add: split)
    then have "length (take (length m) s) + length (take 11 (drop (length m) s)) = length m + 11"
      using len by (metis length_append)
    then have "length (take (length m) s) = length m"
      by (simp add: min_def split: if_splits)
    with eq have "take (length m) s = m \<and> take 11 (drop (length m) s) = v"
      by (simp add: append_eq_append_conv)
    with a show "starts_with m s \<and> match_id11 (drop (length m) s) = Some v"
      by (simp add: starts_with_def match_id11_iff)
  qed
qed

lemma marker_unique:
  assumes "m1 \<in> set markers" "m2 \<in> set markers" "starts_with m1 s" "starts_with m2 s"
  shows "m1 = m2"
proof -
  have two: "take 2 s = take 2 m" if "m \<in> set markers" "starts_with m s" for m
  proof -
    from that(1) have "2 \<le> length m" by (auto simp: markers_def)
    then have "take 2 (take (length m) s) = take 2 s" by (simp add: min_def)
    with that(2) show ?thesis by (simp add: starts_with_def)
  qed
  have "take 2 m1 = take 2 m2"
    using two [OF assms(1,3)] two [OF assms(2,4)] by simp
  with assms(1,2) show ?thesis
    by (auto simp: markers_def)
qed

lemma match_alts_iff:
  "set ms \<subseteq> set markers \<Longrightarrow>
   match_alts ms s = Some v \<longleftrightarrow>
     (\<exists>m \<in> set ms. starts_with m s \<and> match_id11 (drop (length m) s) = Some v)"
proof (induction ms)
  case Nil
  then show ?case by simp
next
  case (Cons m ms)
  then have IH: "match_alts ms s = Some v \<longleftrightarrow>
     (\<exists>k \<in> set ms. starts_with k s \<and> match_id11 (drop (length k) s) = Some v)"
    and m: "m \<in> set markers" and ms: "set ms \<subseteq> set markers"
    by simp_all
  show ?case
  proof (cases "starts_with m s")
    case False
    then show ?thesis using IH by auto
  next
    case True
    have only: "k = m" if "k \<in> set ms" "starts_with k s" for k
      using marker_unique [of k m s] that m ms True by auto
    show ?thesis
    proof (cases "match_id11 (drop (length m) s)")
      case None
      then show ?thesis using True IH only by auto
    next
      case (Some w)
      then show ?thesis using True only by auto
    qed
  qed
qed

lemma embedded_at_iff: "embedded_at u i v \<longleftrightarrow> match_alts markers (drop i u) = Some v"
proof -
  have "match_alts markers (drop i u) = Some v \<longleftrightarrow>
     (\<exists>m \<in> set markers. starts_with m (drop i u)
        \<and> match_id11 (drop (length m) (drop i u)) = Some v)"
    by (rule match_alts_iff) (rule subset_refl)
  also have "\<dots> \<longleftrightarrow>
     (\<exists>m \<in> set markers. is_identifier v \<and> take (length m + 11) (drop i u) = m @ v)"
    by (simp only: alternative_iff)
  also have "\<dots> \<longleftrightarrow> embedded_at u i v"
    unfolding embedded_at_def markers_def by blast
  finally show ?thesis by (rule sym)
qed

lemma match_alts_empty: "match_alts markers [] = None"
  by (simp add: markers_def starts_with_def)

lemma search_marker_leftmost:
  assumes "embedded_at u i v" "\<forall>j < i. \<forall>w. \<not> embedded_at u j w"
  shows "search_marker u = Some v"
proof -
  have hit: "match_alts markers (drop i u) = Some v"
    using assms(1) by (simp add: embedded_at_iff)
  have i: "i \<le> length u"
  proof (rule ccontr)
    assume "\<not> i \<le> length u"
    then have "drop i u = []" by simp
    with hit show False by (simp add: match_alts_empty)
  qed
  have "\<forall>j < length (take i u). match_alts markers (drop j (take i u @ drop i u)) = None"
  proof (intro allI impI)
    fix j assume "j < length (take i u)"
    then have "j < i" by simp
    with assms(2) have "\<forall>w. match_alts markers (drop j u) \<noteq> Some w"
      by (simp add: embedded_at_iff)
    then have "match_alts markers (drop j u) = None" by (cases "match_alts markers (drop j u)") auto
    then show "match_alts markers (drop j (take i u @ drop i u)) = None"
      by (simp only: append_take_drop_id)
  qed
  then have "search_marker (take i u @ drop i u) = search_marker (drop i u)"
    by (rule search_marker_skip)
  then have "search_marker u = search_marker (drop i u)"
    by (simp only: append_take_drop_id)
  also have "\<dots> = Some v"
    using hit by (rule search_marker_hit)
  finally show ?thesis .
qed

lemma search_marker_None_iff:
  "search_marker u = None \<longleftrightarrow> (\<forall>j. match_alts markers (drop j u) = None)"
proof (induction u)
  case Nil
  show ?case by (simp add: match_alts_empty)
next
  case (Cons c cs)
  show ?case
  proof
    assume a: "search_marker (c # cs) = None"
    then have h: "match_alts markers (c # cs) = None" and t: "search_marker cs = None"
      by (auto split: option.splits)
    show "\<forall>j. match_alts markers (drop j (c # cs)) = None"
    proof
      fix j
      show "match_alts markers (drop j (c # cs)) = None"
        using h t Cons.IH by (cases j) simp_all
    qed
  next
    assume a: "\<forall>j. match_alts markers (drop j (c # cs)) = None"
    then have "match_alts markers (drop 0 (c # cs)) = None" by blast
    then have h: "match_alts markers (c # cs) = None" by simp
    have "\<forall>j. match_alts markers (drop j cs) = None"
    proof
      fix j
      from a have "match_alts markers (drop (Suc j) (c # cs)) = None" by blast
      then show "match_alts markers (drop j cs) = None" by simp
    qed
    then have "search_marker cs = None" using Cons.IH by simp
    with h show "search_marker (c # cs) = None" by simp
  qed
qed

lemma search_marker_absent:
  "(\<forall>j w. \<not> embedded_at u j w) \<longleftrightarrow> search_marker u = None"
proof -
  have "(\<forall>j w. \<not> embedded_at u j w) \<longleftrightarrow> (\<forall>j. match_alts markers (drop j u) = None)"
    by (simp add: embedded_at_iff)
  then show ?thesis by (simp add: search_marker_None_iff)
qed

lemma search_bare_iff: "search_bare u = Some v \<longleftrightarrow> bare_form u v"
proof
  assume "search_bare u = Some v"
  then have m: "match_id11 u = Some v" and d: "drop 11 u = [] \<or> drop 11 u = [CHR 0x0A]"
    by (auto simp: search_bare_def split: option.splits if_splits)
  from m have v: "is_identifier v" and t: "take 11 u = v"
    by (simp_all add: match_id11_iff)
  have u: "take 11 u @ drop 11 u = u"
    by (rule append_take_drop_id)
  from d have "u = v \<or> u = v @ [CHR 0x0A]"
  proof
    assume "drop 11 u = []"
    with u t have "u = v" by simp
    then show ?thesis by (rule disjI1)
  next
    assume "drop 11 u = [CHR 0x0A]"
    with u t have "u = v @ [CHR 0x0A]" by simp
    then show ?thesis by (rule disjI2)
  qed
  with v show "bare_form u v"
    by (simp only: bare_form_def simp_thms)
next
  assume "bare_form u v"
  then have v: "is_identifier v" and u: "u = v \<or> u = v @ [CHR 0x0A]"
    by (simp_all add: bare_form_def)
  from v have len: "length v = 11" by (simp add: is_identifier_def)
  from u show "search_bare u = Some v"
  proof
    assume e: "u = v"
    have "match_id11 v = Some v" using v len by (simp add: match_id11_iff)
    moreover have "drop 11 v = []" using len by simp
    ultimately have "search_bare v = Some v" by (simp add: search_bare_def)
    then show ?thesis by (simp only: e)
  next
    assume e: "u = v @ [CHR 0x0A]"
    have "match_id11 (v @ [CHR 0x0A]) = Some v" using v len by (simp add: match_id11_iff)
    moreover have "drop 11 (v @ [CHR 0x0A]) = [CHR 0x0A]" using len by simp
    ultimately have "search_bare (v @ [CHR 0x0A]) = Some v" by (simp add: search_bare_def)
    then show ?thesis by (simp only: e)
  qed
qed

lemma search_bare_absent: "(\<forall>v. \<not> bare_form u v) \<longleftrightarrow> search_bare u = None"
  by (cases "search_bare u") (auto simp: search_bare_iff [symmetric])

text \<open>
  C4 (amended). The marker pattern is tried first and matches at the leftmost place of
  the string where one of the markers v=, /v/, youtu.be/, /embed/ is followed by 11
  characters of the class: the identifier found there is returned. When no such place
  exists, the bare pattern is tried: a string that is an identifier of 11 characters,
  also when one newline follows it, gives that identifier. So a bare identifier is
  returned unchanged. When neither pattern matches, the parser raises the
  \<open>ValueError\<close> with its message.
\<close>

theorem extract_video_id_leftmost:
  "(\<forall>i v. embedded_at u i v \<and> (\<forall>j < i. \<forall>w. \<not> embedded_at u j w) \<longrightarrow>
        extract_video_id u = Inr v)
   \<and> (\<forall>v. (\<forall>j w. \<not> embedded_at u j w) \<and> bare_form u v \<longrightarrow> extract_video_id u = Inr v)
   \<and> (is_identifier u \<longrightarrow> extract_video_id u = Inr u)
   \<and> ((\<forall>j w. \<not> embedded_at u j w) \<and> (\<forall>v. \<not> bare_form u v) \<longrightarrow>
        extract_video_id u = Inl (ValueError (''Could not extract video ID from: '' @ u)))"
proof (intro conjI allI impI)
  fix i v
  assume a: "embedded_at u i v \<and> (\<forall>j < i. \<forall>w. \<not> embedded_at u j w)"
  from a have a1: "embedded_at u i v" by (rule conjunct1)
  from a have a2: "\<forall>j < i. \<forall>w. \<not> embedded_at u j w" by (rule conjunct2)
  have "search_marker u = Some v"
    using a1 a2 by (rule search_marker_leftmost)
  then show "extract_video_id u = Inr v"
    by (simp add: extract_video_id_def)
next
  fix v
  assume a: "(\<forall>j w. \<not> embedded_at u j w) \<and> bare_form u v"
  from a have "search_marker u = None" by (simp only: search_marker_absent)
  moreover from a have "search_bare u = Some v" by (simp only: search_bare_iff)
  ultimately show "extract_video_id u = Inr v"
    by (simp add: extract_video_id_def)
next
  assume a: "is_identifier u"
  then have "length u = 11" "list_all is_id_char u"
    by (simp_all add: is_identifier_iff)
  then show "extract_video_id u = Inr u"
    by (simp add: extract_video_id_def search_marker_no_delimiter search_bare_id)
next
  assume a: "(\<forall>j w. \<not> embedded_at u j w) \<and> (\<forall>v. \<not> bare_form u v)"
  from a have "search_marker u = None" by (simp only: search_marker_absent)
  moreover from a have "search_bare u = None" by (simp only: search_bare_absent)
  ultimately show "extract_video_id u = Inl (ValueError (''Could not extract video ID from: '' @ u))"
    by (simp add: extract_video_id_def)
qed

lemma leftmostI:
  assumes "list_all (\<lambda>j. match_alts markers (drop j u) = None) [0..<i]"
    and "match_alts markers (drop i u) = Some v"
  shows "embedded_at u i v \<and> (\<forall>j < i. \<forall>w. \<not> embedded_at u j w)"
proof -
  have "\<forall>j < i. match_alts markers (drop j u) = None"
    using assms(1) unfolding list_all_iff set_upt by simp
  then have "\<forall>j < i. \<forall>w. \<not> embedded_at u j w"
    by (simp add: embedded_at_iff)
  moreover have "embedded_at u i v"
    using assms(2) by (simp only: embedded_at_iff)
  ultimately show ?thesis by (rule conjI [rotated])
qed

lemma w_watch:
  "embedded_at ''https://www.youtube.com/watch?v=dQw4w9WgXcQ&t=42s'' 30 ''dQw4w9WgXcQ''
   \<and> (\<forall>j < 30. \<forall>w. \<not> embedded_at ''https://www.youtube.com/watch?v=dQw4w9WgXcQ&t=42s'' j w)"
proof (rule leftmostI)
  show "list_all (\<lambda>j. match_alts markers
      (drop j ''https://www.youtube.com/watch?v=dQw4w9WgXcQ&t=42s'') = None) [0..<30]"
    by code_simp
  show "match_alts markers (drop 30 ''https://www.youtube.com/watch?v=dQw4w9WgXcQ&t=42s'') =
      Some ''dQw4w9WgXcQ''"
    by code_simp
qed

lemma w_v:
  "embedded_at ''https://www.youtube.com/v/dQw4w9WgXcQ'' 23 ''dQw4w9WgXcQ''
   \<and> (\<forall>j < 23. \<forall>w. \<not> embedded_at ''https://www.youtube.com/v/dQw4w9WgXcQ'' j w)"
proof (rule leftmostI)
  show "list_all (\<lambda>j. match_alts markers
      (drop j ''https://www.youtube.com/v/dQw4w9WgXcQ'') = None) [0..<23]"
    by code_simp
  show "match_alts markers (drop 23 ''https://www.youtube.com/v/dQw4w9WgXcQ'') =
      Some ''dQw4w9WgXcQ''"
    by code_simp
qed

lemma w_short:
  "embedded_at ''https://youtu.be/dQw4w9WgXcQ'' 8 ''dQw4w9WgXcQ''
   \<and> (\<forall>j < 8. \<forall>w. \<not> embedded_at ''https://youtu.be/dQw4w9WgXcQ'' j w)"
proof (rule leftmostI)
  show "list_all (\<lambda>j. match_alts markers
      (drop j ''https://youtu.be/dQw4w9WgXcQ'') = None) [0..<8]"
    by code_simp
  show "match_alts markers (drop 8 ''https://youtu.be/dQw4w9WgXcQ'') = Some ''dQw4w9WgXcQ''"
    by code_simp
qed

lemma w_embed:
  "embedded_at ''https://www.youtube.com/embed/dQw4w9WgXcQ?rel=0'' 23 ''dQw4w9WgXcQ''
   \<and> (\<forall>j < 23. \<forall>w. \<not> embedded_at ''https://www.youtube.com/embed/dQw4w9WgXcQ?rel=0'' j w)"
proof (rule leftmostI)
  show "list_all (\<lambda>j. match_alts markers
      (drop j ''https://www.youtube.com/embed/dQw4w9WgXcQ?rel=0'') = None) [0..<23]"
    by code_simp
  show "match_alts markers (drop 23 ''https://www.youtube.com/embed/dQw4w9WgXcQ?rel=0'') =
      Some ''dQw4w9WgXcQ''"
    by code_simp
qed

lemma w_identifier: "is_identifier ''dQw4w9WgXcQ''"
  unfolding is_identifier_iff by code_simp

lemma w_newline:
  "(\<forall>j w. \<not> embedded_at (''dQw4w9WgXcQ'' @ [CHR 0x0A]) j w)
   \<and> bare_form (''dQw4w9WgXcQ'' @ [CHR 0x0A]) ''dQw4w9WgXcQ''"
proof
  have "search_marker (''dQw4w9WgXcQ'' @ [CHR 0x0A]) = None"
    by code_simp
  then show "\<forall>j w. \<not> embedded_at (''dQw4w9WgXcQ'' @ [CHR 0x0A]) j w"
    by (simp only: search_marker_absent)
  show "bare_form (''dQw4w9WgXcQ'' @ [CHR 0x0A]) ''dQw4w9WgXcQ''"
    using w_identifier by (simp only: bare_form_def simp_thms)
qed

lemma w_nothing:
  "(\<forall>j w. \<not> embedded_at ''not a video'' j w) \<and> (\<forall>v. \<not> bare_form ''not a video'' v)"
proof
  have "search_marker ''not a video'' = None"
    by code_simp
  then show "\<forall>j w. \<not> embedded_at ''not a video'' j w"
    by (simp only: search_marker_absent)
  have "search_bare ''not a video'' = None"
    by code_simp
  then show "\<forall>v. \<not> bare_form ''not a video'' v"
    by (simp only: search_bare_absent)
qed

theorem extract_video_id_leftmost_witness:
  "extract_video_id ''https://www.youtube.com/watch?v=dQw4w9WgXcQ&t=42s'' = Inr ''dQw4w9WgXcQ''
   \<and> extract_video_id ''https://www.youtube.com/v/dQw4w9WgXcQ'' = Inr ''dQw4w9WgXcQ''
   \<and> extract_video_id ''https://youtu.be/dQw4w9WgXcQ'' = Inr ''dQw4w9WgXcQ''
   \<and> extract_video_id ''https://www.youtube.com/embed/dQw4w9WgXcQ?rel=0'' = Inr ''dQw4w9WgXcQ''
   \<and> extract_video_id ''dQw4w9WgXcQ'' = Inr ''dQw4w9WgXcQ''
   \<and> extract_video_id (''dQw4w9WgXcQ'' @ [CHR 0x0A]) = Inr ''dQw4w9WgXcQ''
   \<and> extract_video_id ''not a video'' =
       Inl (ValueError ''Could not extract video ID from: not a video'')"
proof -
  have a: "extract_video_id ''https://www.youtube.com/watch?v=dQw4w9WgXcQ&t=42s'' = Inr ''dQw4w9WgXcQ''"
    by (rule extract_video_id_leftmost [THEN conjunct1, rule_format, OF w_watch])
  have b: "extract_video_id ''https://www.youtube.com/v/dQw4w9WgXcQ'' = Inr ''dQw4w9WgXcQ''"
    by (rule extract_video_id_leftmost [THEN conjunct1, rule_format, OF w_v])
  have c: "extract_video_id ''https://youtu.be/dQw4w9WgXcQ'' = Inr ''dQw4w9WgXcQ''"
    by (rule extract_video_id_leftmost [THEN conjunct1, rule_format, OF w_short])
  have d: "extract_video_id ''https://www.youtube.com/embed/dQw4w9WgXcQ?rel=0'' = Inr ''dQw4w9WgXcQ''"
    by (rule extract_video_id_leftmost [THEN conjunct1, rule_format, OF w_embed])
  have e: "extract_video_id ''dQw4w9WgXcQ'' = Inr ''dQw4w9WgXcQ''"
    by (rule extract_video_id_leftmost [THEN conjunct2, THEN conjunct2, THEN conjunct1,
          rule_format, OF w_identifier])
  have f: "extract_video_id (''dQw4w9WgXcQ'' @ [CHR 0x0A]) = Inr ''dQw4w9WgXcQ''"
    by (rule extract_video_id_leftmost [THEN conjunct2, THEN conjunct1, rule_format, OF w_newline])
  have g: "extract_video_id ''not a video'' =
       Inl (ValueError (''Could not extract video ID from: '' @ ''not a video''))"
    by (rule extract_video_id_leftmost [THEN conjunct2, THEN conjunct2, THEN conjunct2,
          rule_format, OF w_nothing])
  show ?thesis
    using a b c d e f g by simp
qed

lemma w_second_id:
  "extract_video_id ''https://www.youtube.com/watch?rv=abcdefghijk&v=dQw4w9WgXcQ'' =
     Inr ''abcdefghijk''"
  by code_simp

lemma w_second_embedded:
  "embedded_at ''https://www.youtube.com/watch?rv=abcdefghijk&v=dQw4w9WgXcQ'' 45 ''dQw4w9WgXcQ''"
proof -
  have "match_alts markers (drop 45 ''https://www.youtube.com/watch?rv=abcdefghijk&v=dQw4w9WgXcQ'') =
      Some ''dQw4w9WgXcQ''"
    by code_simp
  then show ?thesis by (simp only: embedded_at_iff)
qed

lemma w_newline_id: "extract_video_id (''dQw4w9WgXcQ'' @ [CHR 0x0A]) = Inr ''dQw4w9WgXcQ''"
  by code_simp

text \<open>
  C4 as stated fails at two inputs. An identifier followed by a newline is not a string
  of exactly 11 characters, yet the bare pattern accepts it. And an identifier that
  follows the marker v= in a watch URL is not returned when an earlier parameter ends in
  v= and has 11 class characters after it: the earlier characters are returned.
\<close>

theorem extract_video_id_counterexample:
  "length (''dQw4w9WgXcQ'' @ [CHR 0x0A]) = 12
   \<and> extract_video_id (''dQw4w9WgXcQ'' @ [CHR 0x0A]) = Inr ''dQw4w9WgXcQ''
   \<and> embedded_at ''https://www.youtube.com/watch?rv=abcdefghijk&v=dQw4w9WgXcQ'' 45 ''dQw4w9WgXcQ''
   \<and> extract_video_id ''https://www.youtube.com/watch?rv=abcdefghijk&v=dQw4w9WgXcQ'' \<noteq>
       Inr ''dQw4w9WgXcQ''"
  using w_second_id w_second_embedded w_newline_id by simp

subsection \<open>Content extraction against the specification\<close>

lemma decompose_all_visible:
  "all_strings (decompose_all tags soup) = visible_strings tags soup"
  by (induction tags soup rule: decompose_all.induct) simp_all

lemma decompose_all_keeps:
  "set (tags_of soup) \<inter> set tags = {} \<Longrightarrow> decompose_all tags soup = soup"
  by (induction tags soup rule: decompose_all.induct) auto

lemma find_tag_None_iff:
  "find_tag name soup = None \<longleftrightarrow> filter (has_name name) (elements_of soup) = []"
  by (induction name soup rule: find_tag.induct) (auto split: option.splits)

lemma find_tag_first: "find_tag name soup = first_named name soup"
proof (induction name soup rule: find_tag.induct)
  case (1 name)
  show ?case by (simp add: first_named_def)
next
  case (2 name s ns)
  then show ?case by (simp add: first_named_def)
next
  case (3 name t cs ns)
  show ?case
  proof (cases "t = name")
    case True
    then show ?thesis by (simp add: first_named_def)
  next
    case False
    show ?thesis
    proof (cases "find_tag name cs")
      case None
      then have "filter (has_name name) (elements_of cs) = []"
        by (simp add: find_tag_None_iff)
      then show ?thesis
        using False None 3 by (simp add: first_named_def)
    next
      case (Some e)
      then have "first_named name cs = Some e"
        using False 3 by simp
      then obtain es where "filter (has_name name) (elements_of cs) = e # es"
        by (auto simp: first_named_def split: list.splits)
      then show ?thesis
        using False Some by (simp add: first_named_def)
    qed
  qed
qed

lemma element_strings:
  "e \<in> set (elements_of soup) \<Longrightarrow> set (node_strings e) \<subseteq> set (all_strings soup)"
  by (induction soup rule: elements_of.induct) auto

lemma in_order_set: "in_order xs ys \<Longrightarrow> set xs \<subseteq> set ys"
  by (induction xs ys rule: in_order.induct) (auto split: if_splits)

lemma first_named_element:
  "first_named name soup = Some e \<Longrightarrow> e \<in> set (elements_of soup)"
proof -
  assume "first_named name soup = Some e"
  then obtain es where "filter (has_name name) (elements_of soup) = e # es"
    by (auto simp: first_named_def split: list.splits)
  then have "e \<in> set (filter (has_name name) (elements_of soup))"
    by simp
  then show ?thesis by simp
qed

lemma get_text_cleaned: "get_text sep True e = str_join sep (cleaned_strings e)"
  by (simp add: get_text_def cleaned_strings_def)

lemma pruned_strings:
  "e \<in> set (elements_of (decompose_all stripped_tags parsed)) \<Longrightarrow>
   set (node_strings e) \<subseteq> set (visible_strings non_content_tags parsed)"
proof -
  assume "e \<in> set (elements_of (decompose_all stripped_tags parsed))"
  then have "set (node_strings e) \<subseteq> set (all_strings (decompose_all stripped_tags parsed))"
    by (rule element_strings)
  also have "all_strings (decompose_all stripped_tags parsed) = visible_strings stripped_tags parsed"
    by (rule decompose_all_visible)
  also have "stripped_tags = non_content_tags"
    by (simp add: stripped_tags_def non_content_tags_def)
  finally show ?thesis .
qed

lemma get_text_cleaned_fun: "get_text sep True = (\<lambda>e. str_join sep (cleaned_strings e))"
  by (rule ext) (rule get_text_cleaned)

lemma pruned_part1:
  "all_strings (decompose_all stripped_tags parsed) = visible_strings non_content_tags parsed"
  by (simp add: decompose_all_visible stripped_tags_def non_content_tags_def)

lemma pruned_part2:
  "set (tags_of (decompose_all stripped_tags parsed)) \<inter> set non_content_tags = {}"
  using decompose_all_clean [of stripped_tags parsed]
  by (simp add: stripped_tags_def non_content_tags_def)

lemma pruned_part3:
  "(set (tags_of parsed) \<inter> set non_content_tags = {} \<longrightarrow> (decompose_all stripped_tags parsed) = parsed)"
  using decompose_all_keeps [of parsed stripped_tags]
  by (simp add: stripped_tags_def non_content_tags_def)

lemma pruned_part4:
  "(\<forall>response c.
         client_get env (sq_url sq) = Inr response \<and> raise_for_status response = None
         \<and> BeautifulSoup env (body_text response) = Inr parsed
         \<and> get_content env sq (decompose_all stripped_tags parsed) = Inr c \<longrightarrow>
         content (scrape_url env sq) = take 50000 c)"
  by (intro allI impI) (simp add: scrape_try_success)

lemma pruned_part5:
  "(\<forall>s elements.
         selector sq = Some s \<and> s \<noteq> []
         \<and> select env s (decompose_all stripped_tags parsed) = Inr elements \<longrightarrow>
         get_content env sq (decompose_all stripped_tags parsed) =
           Inr (str_join [CHR 0x0A] (map (\<lambda>e. str_join [] (cleaned_strings e)) elements))
         \<and> (in_order elements (elements_of (decompose_all stripped_tags parsed)) \<longrightarrow>
              (\<forall>e \<in> set elements. set (node_strings e) \<subseteq> set (visible_strings non_content_tags parsed))))"
proof (intro allI impI conjI ballI)
  fix s elements
  assume a: "selector sq = Some s \<and> s \<noteq> []
         \<and> select env s (decompose_all stripped_tags parsed) = Inr elements"
  then have "get_content env sq (decompose_all stripped_tags parsed) =
      Inr (str_join [CHR 0x0A] (map (get_text [] True) elements))"
    by (simp add: get_content_selector)
  then show "get_content env sq (decompose_all stripped_tags parsed) =
           Inr (str_join [CHR 0x0A] (map (\<lambda>e. str_join [] (cleaned_strings e)) elements))"
    by (simp only: get_text_cleaned_fun)
next
  fix s elements e
  assume o: "in_order elements (elements_of (decompose_all stripped_tags parsed))"
    and e: "e \<in> set elements"
  from o have "set elements \<subseteq> set (elements_of (decompose_all stripped_tags parsed))"
    by (rule in_order_set)
  with e have "e \<in> set (elements_of (decompose_all stripped_tags parsed))"
    by blast
  then show "set (node_strings e) \<subseteq> set (visible_strings non_content_tags parsed)"
    by (rule pruned_strings)
qed

lemma pruned_part6:
  "(selector sq = None \<or> selector sq = Some [] \<longrightarrow>
         (\<forall>m. first_named ''main'' (decompose_all stripped_tags parsed) = Some m \<longrightarrow>
            get_content env sq (decompose_all stripped_tags parsed) = Inr (str_join [CHR 0x0A] (cleaned_strings m))
            \<and> set (node_strings m) \<subseteq> set (visible_strings non_content_tags parsed))
         \<and> (\<forall>a. first_named ''main'' (decompose_all stripped_tags parsed) = None \<and> first_named ''article'' (decompose_all stripped_tags parsed) = Some a \<longrightarrow>
            get_content env sq (decompose_all stripped_tags parsed) = Inr (str_join [CHR 0x0A] (cleaned_strings a))
            \<and> set (node_strings a) \<subseteq> set (visible_strings non_content_tags parsed))
         \<and> (\<forall>b. first_named ''main'' (decompose_all stripped_tags parsed) = None \<and> first_named ''article'' (decompose_all stripped_tags parsed) = None
               \<and> first_named ''body'' (decompose_all stripped_tags parsed) = Some b \<longrightarrow>
            get_content env sq (decompose_all stripped_tags parsed) = Inr (str_join [CHR 0x0A] (cleaned_strings b))
            \<and> set (node_strings b) \<subseteq> set (visible_strings non_content_tags parsed))
         \<and> (first_named ''main'' (decompose_all stripped_tags parsed) = None \<and> first_named ''article'' (decompose_all stripped_tags parsed) = None
               \<and> first_named ''body'' (decompose_all stripped_tags parsed) = None \<longrightarrow>
            get_content env sq (decompose_all stripped_tags parsed) = Inr []))"
proof (intro impI)
  assume n: "selector sq = None \<or> selector sq = Some []"
  have g: "get_content env sq (decompose_all stripped_tags parsed) =
     Inr (case find_main (decompose_all stripped_tags parsed) of
            Some m \<Rightarrow> get_text [CHR 0x0A] True m | None \<Rightarrow> [])"
    using n by (rule get_content_fallback)
  have v: "first_named name (decompose_all stripped_tags parsed) = Some e \<Longrightarrow>
      set (node_strings e) \<subseteq> set (visible_strings non_content_tags parsed)" for name e
    by (intro pruned_strings first_named_element)
  show "(\<forall>m. first_named ''main'' (decompose_all stripped_tags parsed) = Some m \<longrightarrow>
            get_content env sq (decompose_all stripped_tags parsed) = Inr (str_join [CHR 0x0A] (cleaned_strings m))
            \<and> set (node_strings m) \<subseteq> set (visible_strings non_content_tags parsed))
         \<and> (\<forall>a. first_named ''main'' (decompose_all stripped_tags parsed) = None \<and> first_named ''article'' (decompose_all stripped_tags parsed) = Some a \<longrightarrow>
            get_content env sq (decompose_all stripped_tags parsed) = Inr (str_join [CHR 0x0A] (cleaned_strings a))
            \<and> set (node_strings a) \<subseteq> set (visible_strings non_content_tags parsed))
         \<and> (\<forall>b. first_named ''main'' (decompose_all stripped_tags parsed) = None \<and> first_named ''article'' (decompose_all stripped_tags parsed) = None
               \<and> first_named ''body'' (decompose_all stripped_tags parsed) = Some b \<longrightarrow>
            get_content env sq (decompose_all stripped_tags parsed) = Inr (str_join [CHR 0x0A] (cleaned_strings b))
            \<and> set (node_strings b) \<subseteq> set (visible_strings non_content_tags parsed))
         \<and> (first_named ''main'' (decompose_all stripped_tags parsed) = None \<and> first_named ''article'' (decompose_all stripped_tags parsed) = None
               \<and> first_named ''body'' (decompose_all stripped_tags parsed) = None \<longrightarrow>
            get_content env sq (decompose_all stripped_tags parsed) = Inr [])"
    using v by (auto simp: g find_main_def find_tag_first get_text_cleaned)
qed

text \<open>
  C7 (amended). The removal loop removes every subtree rooted at a script, style, nav,
  footer or header element and nothing else: the text strings of the pruned document are
  the strings of the parsed document outside those subtrees, none of the five names is
  left, and a document without them stays as it is. The content of a successful response
  is computed from the pruned document (and cut to 50000 characters). If the selector is
  a non-empty string, the content is the stripped text of the elements that the selector
  engine returns for the pruned document, joined by newlines in that order; when these are
  elements of the pruned document in document order, every string that enters the content
  lies outside the removed subtrees. If the selector is absent or empty, the content is
  the text of the first existing region among main, article, body, in that priority: its
  text strings, stripped, the empty ones dropped, joined by newlines; these strings lie
  outside the removed subtrees; the content is empty when no region exists.
\<close>

theorem content_from_pruned_document:
  "all_strings (decompose_all stripped_tags parsed) = visible_strings non_content_tags parsed
   \<and> set (tags_of (decompose_all stripped_tags parsed)) \<inter> set non_content_tags = {}
   \<and> (set (tags_of parsed) \<inter> set non_content_tags = {} \<longrightarrow> (decompose_all stripped_tags parsed) = parsed)
   \<and> (\<forall>response c.
         client_get env (sq_url sq) = Inr response \<and> raise_for_status response = None
         \<and> BeautifulSoup env (body_text response) = Inr parsed
         \<and> get_content env sq (decompose_all stripped_tags parsed) = Inr c \<longrightarrow>
         content (scrape_url env sq) = take 50000 c)
   \<and> (\<forall>s elements.
         selector sq = Some s \<and> s \<noteq> []
         \<and> select env s (decompose_all stripped_tags parsed) = Inr elements \<longrightarrow>
         get_content env sq (decompose_all stripped_tags parsed) =
           Inr (str_join [CHR 0x0A] (map (\<lambda>e. str_join [] (cleaned_strings e)) elements))
         \<and> (in_order elements (elements_of (decompose_all stripped_tags parsed)) \<longrightarrow>
              (\<forall>e \<in> set elements. set (node_strings e) \<subseteq> set (visible_strings non_content_tags parsed))))
   \<and> (selector sq = None \<or> selector sq = Some [] \<longrightarrow>
         (\<forall>m. first_named ''main'' (decompose_all stripped_tags parsed) = Some m \<longrightarrow>
            get_content env sq (decompose_all stripped_tags parsed) = Inr (str_join [CHR 0x0A] (cleaned_strings m))
            \<and> set (node_strings m) \<subseteq> set (visible_strings non_content_tags parsed))
         \<and> (\<forall>a. first_named ''main'' (decompose_all stripped_tags parsed) = None \<and> first_named ''article'' (decompose_all stripped_tags parsed) = Some a \<longrightarrow>
            get_content env sq (decompose_all stripped_tags parsed) = Inr (str_join [CHR 0x0A] (cleaned_strings a))
            \<and> set (node_strings a) \<subseteq> set (visible_strings non_content_tags parsed))
         \<and> (\<forall>b. first_named ''main'' (decompose_all stripped_tags parsed) = None \<and> first_named ''article'' (decompose_all stripped_tags parsed) = None
               \<and> first_named ''body'' (decompose_all stripped_tags parsed) = Some b \<longrightarrow>
            get_content env sq (decompose_all stripped_tags parsed) = Inr (str_join [CHR 0x0A] (cleaned_strings b))
            \<and> set (node_strings b) \<subseteq> set (visible_strings non_content_tags parsed))
         \<and> (first_named ''main'' (decompose_all stripped_tags parsed) = None \<and> first_named ''article'' (decompose_all stripped_tags parsed) = None
               \<and> first_named ''body'' (decompose_all stripped_tags parsed) = None \<longrightarrow>
            get_content env sq (decompose_all stripped_tags parsed) = Inr []))"
  by (intro conjI pruned_part1 pruned_part2 pruned_part3 pruned_part4 pruned_part5 pruned_part6)

lemma p_join_h1:
  "str_join [CHR 0x0A] (map (\<lambda>e. str_join [] (cleaned_strings e))
     [Element ''h1'' [Text '' First ''], Element ''h1'' [Text ''Second''],
      Element ''h1'' [Text ''Third'']]) = ''First\<newline>Second\<newline>Third''"
  by code_simp

lemma p_order_h1:
  "in_order [Element ''h1'' [Text '' First ''], Element ''h1'' [Text ''Second''],
      Element ''h1'' [Text ''Third'']] (elements_of (decompose_all stripped_tags sample_page))"
  by code_simp

lemma p_visible:
  "visible_strings non_content_tags sample_page =
     [''Demo'', '' First '', ''Second'', ''Hello '', ''world'', ''Third'']"
  by code_simp

lemma p_regions:
  "first_named ''main'' (decompose_all stripped_tags sample_page) = None
   \<and> first_named ''article'' (decompose_all stripped_tags sample_page) = None
   \<and> first_named ''body'' (decompose_all stripped_tags sample_page) =
       Some (Element ''body''
           [Element ''h1'' [Text '' First ''], Element ''h1'' [Text ''Second''],
            Element ''p'' [Text ''Hello '', Element ''b'' [Text ''world'']],
            Element ''h1'' [Text ''Third'']])"
  by code_simp

lemma p_body_join:
  "str_join [CHR 0x0A] (cleaned_strings (Element ''body''
           [Element ''h1'' [Text '' First ''], Element ''h1'' [Text ''Second''],
            Element ''p'' [Text ''Hello '', Element ''b'' [Text ''world'']],
            Element ''h1'' [Text ''Third'']])) =
     ''First\<newline>Second\<newline>Hello\<newline>world\<newline>Third''"
  by code_simp

theorem content_from_pruned_document_witness:
  "content (scrape_url (sample_env (Inr demo_response))
      \<lparr>sq_url = ''https://example.org/x'', selector = Some ''h1''\<rparr>) =
     ''First\<newline>Second\<newline>Third''
   \<and> content (scrape_url (sample_env (Inr demo_response))
      \<lparr>sq_url = ''https://example.org/x'', selector = None\<rparr>) =
     ''First\<newline>Second\<newline>Hello\<newline>world\<newline>Third''
   \<and> all_strings (decompose_all stripped_tags sample_page) =
     [''Demo'', '' First '', ''Second'', ''Hello '', ''world'', ''Third'']
   \<and> set (node_strings (Element ''h1'' [Text ''Second''])) \<subseteq>
       set [''Demo'', '' First '', ''Second'', ''Hello '', ''world'', ''Third'']"
proof -
  let ?env = "sample_env (Inr demo_response)"
  let ?s1 = "\<lparr>sq_url = ''https://example.org/x'', selector = Some ''h1''\<rparr>"
  let ?s2 = "\<lparr>sq_url = ''https://example.org/x'', selector = None\<rparr>"
  let ?soup = "decompose_all stripped_tags sample_page"
  let ?h1s = "[Element ''h1'' [Text '' First ''], Element ''h1'' [Text ''Second''],
          Element ''h1'' [Text ''Third'']]"
  note t1 = content_from_pruned_document [of sample_page ?env ?s1]
  note t2 = content_from_pruned_document [of sample_page ?env ?s2]
  have v: "all_strings ?soup = [''Demo'', '' First '', ''Second'', ''Hello '', ''world'', ''Third'']"
    using t1 [THEN conjunct1] by (simp only: p_visible)
  have sel1: "selector ?s1 = Some ''h1'' \<and> ''h1'' \<noteq> [] \<and> select ?env ''h1'' ?soup = Inr ?h1s"
    using w_select_h1 by simp
  note r5 = t1 [THEN conjunct2, THEN conjunct2, THEN conjunct2, THEN conjunct2, THEN conjunct1,
      rule_format, OF sel1]
  have g1: "get_content ?env ?s1 ?soup = Inr ''First\<newline>Second\<newline>Third''"
    using r5 [THEN conjunct1] by (simp only: p_join_h1)
  have o1: "\<forall>e \<in> set ?h1s. set (node_strings e) \<subseteq> set (visible_strings non_content_tags sample_page)"
    using r5 [THEN conjunct2] p_order_h1 by (rule mp)
  have f1: "client_get ?env (sq_url ?s1) = Inr demo_response \<and> raise_for_status demo_response = None
         \<and> BeautifulSoup ?env (body_text demo_response) = Inr sample_page
         \<and> get_content ?env ?s1 ?soup = Inr ''First\<newline>Second\<newline>Third''"
    using w_fetch [of "sq_url ?s1"] g1 by (intro conjI) (elim conjE, assumption)+
  have "content (scrape_url ?env ?s1) = take 50000 ''First\<newline>Second\<newline>Third''"
    by (rule t1 [THEN conjunct2, THEN conjunct2, THEN conjunct2, THEN conjunct1, rule_format, OF f1])
  then have c1: "content (scrape_url ?env ?s1) = ''First\<newline>Second\<newline>Third''"
    by simp
  have none: "selector ?s2 = None \<or> selector ?s2 = Some []"
    by simp
  note r6 = t2 [THEN conjunct2, THEN conjunct2, THEN conjunct2, THEN conjunct2, THEN conjunct2,
      rule_format, OF none]
  have g2: "get_content ?env ?s2 ?soup =
      Inr ''First\<newline>Second\<newline>Hello\<newline>world\<newline>Third''"
    using r6 [THEN conjunct2, THEN conjunct2, THEN conjunct1, rule_format, OF p_regions, THEN conjunct1]
    by (simp only: p_body_join)
  have f2: "client_get ?env (sq_url ?s2) = Inr demo_response \<and> raise_for_status demo_response = None
         \<and> BeautifulSoup ?env (body_text demo_response) = Inr sample_page
         \<and> get_content ?env ?s2 ?soup =
             Inr ''First\<newline>Second\<newline>Hello\<newline>world\<newline>Third''"
    using w_fetch [of "sq_url ?s2"] g2 by (intro conjI) (elim conjE, assumption)+
  have "content (scrape_url ?env ?s2) =
      take 50000 ''First\<newline>Second\<newline>Hello\<newline>world\<newline>Third''"
    by (rule t2 [THEN conjunct2, THEN conjunct2, THEN conjunct2, THEN conjunct1, rule_format, OF f2])
  then have c2: "content (scrape_url ?env ?s2) =
      ''First\<newline>Second\<newline>Hello\<newline>world\<newline>Third''"
    by simp
  have o2: "\<forall>e \<in> set ?h1s. set (node_strings e) \<subseteq>
      set [''Demo'', '' First '', ''Second'', ''Hello '', ''world'', ''Third'']"
    using o1 by (simp only: p_visible)
  have o3: "set (node_strings (Element ''h1'' [Text ''Second''])) \<subseteq>
      set [''Demo'', '' First '', ''Second'', ''Hello '', ''world'', ''Third'']"
    using o2 by simp
  show ?thesis
    using c1 c2 v o3 by (intro conjI)
qed

lemma p_inline_content:
  "get_content (page_env inline_page) \<lparr>sq_url = ''https://example.org/x'', selector = None\<rparr>
      (decompose_all stripped_tags inline_page) = Inr ''Hello\<newline>world''"
  by code_simp

lemma p_inline:
  "content (scrape_url (page_env inline_page)
      \<lparr>sq_url = ''https://example.org/x'', selector = None\<rparr>) = ''Hello\<newline>world''"
proof -
  have f1: "client_get (page_env inline_page)
      (sq_url \<lparr>sq_url = ''https://example.org/x'', selector = None\<rparr>) = Inr demo_response"
    by (simp add: page_env_def)
  have f2: "raise_for_status demo_response = None"
    by (simp add: demo_response_def)
  have f3: "BeautifulSoup (page_env inline_page) (body_text demo_response) = Inr inline_page"
    by (simp add: page_env_def)
  have "content (scrape_url (page_env inline_page)
      \<lparr>sq_url = ''https://example.org/x'', selector = None\<rparr>) = take 50000 ''Hello\<newline>world''"
    by (simp only: scrape_try_success [OF f1 f2 f3 p_inline_content] ScrapeResponse.simps)
  then show ?thesis
    by simp
qed

text \<open>
  C7 as stated fails at two inputs. A selector supplied as the empty string is not used:
  the selector engine is not asked and the content is the text of the body region. And
  the newlines of the region's text do not mark block boundaries: a paragraph with an
  inline element, one block, gives two lines.
\<close>

theorem pruned_content_counterexample:
  "selector \<lparr>sq_url = ''https://example.org/x'', selector = Some ''''\<rparr> = Some ''''
   \<and> select (sample_env (Inr demo_response)) '''' (decompose_all stripped_tags sample_page) = Inr []
   \<and> content (scrape_url (sample_env (Inr demo_response))
        \<lparr>sq_url = ''https://example.org/x'', selector = Some ''''\<rparr>) \<noteq>
      str_join [CHR 0x0A] (map (get_text [] True) [])
   \<and> inline_page = [Element ''body'' [Element ''p'' [Text ''Hello '', Element ''b'' [Text ''world'']]]]
   \<and> content (scrape_url (page_env inline_page)
        \<lparr>sq_url = ''https://example.org/x'', selector = None\<rparr>) = ''Hello\<newline>world''"
proof (intro conjI)
  show "selector \<lparr>sq_url = ''https://example.org/x'', selector = Some ''''\<rparr> = Some ''''"
    by simp
  show "select (sample_env (Inr demo_response)) '''' (decompose_all stripped_tags sample_page) = Inr []"
    by (rule w_select_empty)
  show "content (scrape_url (sample_env (Inr demo_response))
        \<lparr>sq_url = ''https://example.org/x'', selector = Some ''''\<rparr>) \<noteq>
      str_join [CHR 0x0A] (map (get_text [] True) [])"
    by (simp add: w_empty_selector)
  show "inline_page = [Element ''body'' [Element ''p'' [Text ''Hello '', Element ''b'' [Text ''world'']]]]"
    by (rule inline_page_def)
  show "content (scrape_url (page_env inline_page)
        \<lparr>sq_url = ''https://example.org/x'', selector = None\<rparr>) = ''Hello\<newline>world''"
    by (rule p_inline)
qed

end
